theory Spec2Isabelle
  imports Main "HOL-Library.Monad_Syntax" "HOL-Library.Sublist"
begin

section \<open>JavaScript values of the grocery list application\<close>

text \<open>
  The application (src/app.js) keeps its list in module variables \<open>items\<close>, \<open>dark\<close>,
  \<open>listName\<close> and \<open>listId\<close>. The values stored there come from object literals of the
  program, from \<open>JSON.parse\<close> of the persisted slots and from \<open>JSON.parse\<close> of an imported
  file, and the program never validates them. They are therefore modelled as JavaScript
  values, not as a typed record of fields.

  A string is its sequence of UTF-16 code units. A number is a double: the finite ones
  with an integer value (\<open>Fin\<close>, the value being one that a double has), the two
  infinities and \<open>NaN\<close>; numbers with a fraction, which only a parsed document can
  contain, cannot be written in this type. An object is the list of its own properties
  in enumeration order.
\<close>

type_synonym jsstr = "nat list"

datatype jsnum = Fin int | PosInf | NegInf | NaN

datatype jsval =
    JUndef
  | JNull
  | JBool bool
  | JNum jsnum
  | JStr jsstr
  | JArr "jsval list"
  | JObj "(jsstr \<times> jsval) list"

subsection \<open>String literals of the source, as code units\<close>

abbreviation STR_id :: jsstr where "STR_id \<equiv> [105, 100]"
abbreviation STR_name :: jsstr where "STR_name \<equiv> [110, 97, 109, 101]"
abbreviation STR_qty :: jsstr where "STR_qty \<equiv> [113, 116, 121]"
abbreviation STR_category :: jsstr where
  "STR_category \<equiv> [99, 97, 116, 101, 103, 111, 114, 121]"
abbreviation STR_note :: jsstr where "STR_note \<equiv> [110, 111, 116, 101]"
abbreviation STR_done :: jsstr where "STR_done \<equiv> [100, 111, 110, 101]"
abbreviation STR_createdAt :: jsstr where
  "STR_createdAt \<equiv> [99, 114, 101, 97, 116, 101, 100, 65, 116]"
abbreviation STR_listId :: jsstr where "STR_listId \<equiv> [108, 105, 115, 116, 73, 100]"
abbreviation STR_items :: jsstr where "STR_items \<equiv> [105, 116, 101, 109, 115]"
abbreviation STR_listName :: jsstr where
  "STR_listName \<equiv> [108, 105, 115, 116, 78, 97, 109, 101]"
abbreviation STR_version :: jsstr where
  "STR_version \<equiv> [118, 101, 114, 115, 105, 111, 110]"
abbreviation STR_todo :: jsstr where "STR_todo \<equiv> [116, 111, 100, 111]"
abbreviation STR_false :: jsstr where "STR_false \<equiv> [102, 97, 108, 115, 101]"
abbreviation STR_true :: jsstr where "STR_true \<equiv> [116, 114, 117, 101]"
abbreviation STR_null :: jsstr where "STR_null \<equiv> [110, 117, 108, 108]"
abbreviation STR_undefined :: jsstr where
  "STR_undefined \<equiv> [117, 110, 100, 101, 102, 105, 110, 101, 100]"
abbreviation STR_object_Object :: jsstr where
  "STR_object_Object \<equiv>
     [91, 111, 98, 106, 101, 99, 116, 32, 79, 98, 106, 101, 99, 116, 93]"

abbreviation STR_toString :: jsstr where
  "STR_toString \<equiv> [116, 111, 83, 116, 114, 105, 110, 103]"
abbreviation STR_NaN :: jsstr where "STR_NaN \<equiv> [78, 97, 78]"
abbreviation STR_Infinity :: jsstr where
  "STR_Infinity \<equiv> [73, 110, 102, 105, 110, 105, 116, 121]"
abbreviation STR_list :: jsstr where "STR_list \<equiv> [108, 105, 115, 116]"
abbreviation STR_dot_json :: jsstr where "STR_dot_json \<equiv> [46, 106, 115, 111, 110]"

text \<open>The label of the quantity on a card and the separator before the note.\<close>

abbreviation STR_qty_label :: jsstr where
  "STR_qty_label \<equiv> [1499, 1502, 1493, 1514, 58, 32]"
abbreviation STR_note_sep :: jsstr where "STR_note_sep \<equiv> [32, 183, 32]"

text \<open>The storage keys \<open>he-grocery.items\<close>, \<open>.dark\<close>, \<open>.listName\<close>, \<open>.listId\<close>.\<close>

abbreviation KEY_items :: jsstr where
  "KEY_items \<equiv> [104, 101, 45, 103, 114, 111, 99, 101, 114, 121, 46, 105, 116, 101, 109, 115]"
abbreviation KEY_dark :: jsstr where
  "KEY_dark \<equiv> [104, 101, 45, 103, 114, 111, 99, 101, 114, 121, 46, 100, 97, 114, 107]"
abbreviation KEY_listName :: jsstr where
  "KEY_listName \<equiv> [104, 101, 45, 103, 114, 111, 99, 101, 114, 121, 46,
                    108, 105, 115, 116, 78, 97, 109, 101]"
abbreviation KEY_listId :: jsstr where
  "KEY_listId \<equiv> [104, 101, 45, 103, 114, 111, 99, 101, 114, 121, 46,
                  108, 105, 115, 116, 73, 100]"

text \<open>The fallback category (the last entry of \<open>CATS\<close>) and the default list name.\<close>

abbreviation CAT_other :: jsstr where "CAT_other \<equiv> [1488, 1495, 1512, 1497, 1501]"

abbreviation DEFAULT_listName :: jsstr where
  "DEFAULT_listName \<equiv> [1511, 1504, 1497, 1493, 1514, 32, 1500, 1489, 1497, 1514]"

definition CATS :: "jsstr list" where
  "CATS =
    [[1497, 1512, 1511, 1493, 1514],
     [1508, 1497, 1512, 1493, 1514],
     [1495, 1500, 1489],
     [1489, 1513, 1512, 32, 1493, 1506, 1493, 1507],
     [1502, 1488, 1508, 1497, 1501],
     [1502, 1513, 1511, 1488, 1493, 1514],
     [1504, 1497, 1511, 1497, 1493, 1503],
     [1496, 1493, 1488, 1500, 1496, 1497, 1511, 1492],
     [1511, 1508, 1493, 1488, 1497, 1501],
     [1513, 1497, 1502, 1493, 1512, 1497, 1501],
     [1502, 1514, 1493, 1511, 1497, 1501],
     [1514, 1489, 1500, 1497, 1504, 1497, 1501],
     [1488, 1495, 1512, 1497, 1501]]"

definition STARTER_SUGGESTIONS :: "jsstr list" where
  "STARTER_SUGGESTIONS =
    [[1495, 1500, 1489],
     [1500, 1495, 1501],
     [1489, 1497, 1510, 1497, 1501],
     [1490, 1489, 1497, 1504, 1492, 32, 1500, 1489, 1504, 1492],
     [1488, 1513, 1500],
     [1511, 1493, 1496, 1490, 39],
     [1496, 1495, 1497, 1504, 1492],
     [1511, 1508, 1492],
     [1505, 1493, 1499, 1512],
     [1513, 1502, 1503, 32, 1494, 1497, 1514],
     [1488, 1493, 1512, 1494],
     [1508, 1505, 1496, 1492],
     [1496, 1493, 1504, 1492],
     [1514, 1497, 1512, 1505],
     [1495, 1502, 1488, 1492],
     [1497, 1493, 1490, 1493, 1512, 1496],
     [1502, 1500, 1508, 1508, 1493, 1504, 1497, 1501],
     [1506, 1490, 1489, 1504, 1497, 1493, 1514],
     [1489, 1510, 1500],
     [1513, 1493, 1501],
     [1514, 1508, 1493, 1495, 1497, 32, 1488, 1491, 1502, 1492],
     [1489, 1504, 1504, 1493, 1514],
     [1514, 1508, 1493, 1495, 1497, 1501],
     [1506, 1493, 1507],
     [1505, 1496, 1497, 1497, 1511],
     [1496, 1495, 1497, 1504, 1492, 32, 1490, 1493, 1500, 1502, 1497, 1514],
     [1508, 1497, 1514, 1493, 1514],
     [1500, 1488, 1508, 1492],
     [1504, 1497, 1497, 1512, 32, 1496, 1493, 1488, 1500, 1496],
     [1505, 1489, 1493, 1503],
     [1513, 1502, 1508, 1493],
     [1488, 1489, 1511, 1514, 32, 1499, 1489, 1497, 1505, 1492],
     [1496, 1489, 1500, 1497, 1493, 1514, 32, 1500, 1502, 1491, 1497, 1495],
     [1502, 1497, 1493, 1504, 1494],
     [1511, 1496, 1513, 1493, 1508],
     [1495, 1512, 1491, 1500],
     [1513, 1493, 1511, 1493, 1500, 1491],
     [1495, 1496, 1497, 1508, 1497, 1501],
     [1497, 1512, 1511, 1493, 1514, 32, 1502, 1493, 1511, 1508, 1488, 1497, 1501]]"

subsection \<open>Numbers: rounding, addition, printing\<close>

text \<open>
  The double nearest to a natural number: below \<open>2 ^ 53\<close> every natural number is a
  double; above, the number is cut to 53 significant bits and rounded to the nearest
  such value, a tie going to the even one.
\<close>

fun bit_length :: "nat \<Rightarrow> nat" where
  "bit_length n = (if n = 0 then 0 else Suc (bit_length (n div 2)))"

declare bit_length.simps [simp del]

definition round_nat :: "nat \<Rightarrow> nat" where
  "round_nat m =
     (if m < 2 ^ 53 then m
      else let e = bit_length m - 53; q = m div 2 ^ e; r = m mod 2 ^ e
           in (if 2 * r > 2 ^ e \<or> (2 * r = 2 ^ e \<and> odd q) then q + 1 else q) * 2 ^ e)"

text \<open>The number value of an integer; from \<open>2 ^ 1024\<close> on the rounding overflows.\<close>

definition dbl :: "int \<Rightarrow> jsnum" where
  "dbl x =
     (let y = round_nat (nat \<bar>x\<bar>)
      in if 2 ^ 1024 \<le> y then (if x < 0 then NegInf else PosInf)
         else Fin (if x < 0 then - int y else int y))"

text \<open>\<open>a + b\<close> on numbers: the exact sum, rounded.\<close>

fun num_add :: "jsnum \<Rightarrow> jsnum \<Rightarrow> jsnum" where
  "num_add (Fin a) (Fin b) = dbl (a + b)"
| "num_add NaN _ = NaN"
| "num_add _ NaN = NaN"
| "num_add PosInf NegInf = NaN"
| "num_add NegInf PosInf = NaN"
| "num_add PosInf _ = PosInf"
| "num_add _ PosInf = PosInf"
| "num_add NegInf _ = NegInf"
| "num_add _ NegInf = NegInf"

fun dec_digits :: "nat \<Rightarrow> jsstr" where
  "dec_digits n = (if n < 10 then [48 + n] else dec_digits (n div 10) @ [48 + n mod 10])"

declare dec_digits.simps [simp del]

text \<open>
  \<open>String(x)\<close> for a number (Number::toString): the digits are those of the shortest
  decimal \<open>s * 10 ^ (n - k)\<close>, with \<open>k\<close> digits in \<open>s\<close>, whose nearest double is \<open>x\<close>; of
  several \<open>s\<close> with the same \<open>k\<close> the one closest to \<open>x\<close> is taken. Up to 21 digits
  before the point they are printed in full, padded with zeros; beyond, in exponent
  notation. Below \<open>2 ^ 53\<close> this is the decimal numeral of the number.
\<close>

definition candidate :: "nat \<Rightarrow> nat \<Rightarrow> nat \<Rightarrow> nat option" where
  "candidate m n k =
     (let p = 10 ^ (n - k); lo = m div p; r = m mod p;
          ok = (\<lambda>s. 10 ^ (k - 1) \<le> s \<and> s < 10 ^ k \<and> round_nat (s * p) = m)
      in if ok lo \<and> ok (lo + 1)
         then (if 2 * r < p \<or> (2 * r = p \<and> even lo) then Some lo else Some (lo + 1))
         else if ok lo then Some lo
         else if ok (lo + 1) then Some (lo + 1)
         else None)"

fun shortest_from :: "nat \<Rightarrow> nat \<Rightarrow> nat \<Rightarrow> nat \<Rightarrow> nat \<times> nat" where
  "shortest_from m n k 0 = (m, n)"
| "shortest_from m n k (Suc fuel) =
     (case candidate m n k of
        Some s \<Rightarrow> (s, k)
      | None \<Rightarrow> shortest_from m n (Suc k) fuel)"

definition nat_to_str :: "nat \<Rightarrow> jsstr" where
  "nat_to_str m =
     (if m < 2 ^ 53 then dec_digits m
      else
        let nd = length (dec_digits m);
            (s, k, n) =
              (if round_nat (10 ^ nd) = m then (1, 1, nd + 1)
               else let (s, k) = shortest_from m nd 1 17 in (s, k, nd));
            ds = dec_digits s
        in if n \<le> 21 then ds @ replicate (n - k) 48
           else (if k = 1 then ds else hd ds # 46 # tl ds) @ [101, 43] @ dec_digits (n - 1))"

definition num_to_str :: "jsnum \<Rightarrow> jsstr" where
  "num_to_str x =
     (case x of
        NaN \<Rightarrow> STR_NaN
      | PosInf \<Rightarrow> STR_Infinity
      | NegInf \<Rightarrow> 45 # STR_Infinity
      | Fin i \<Rightarrow> if i < 0 then 45 # nat_to_str (nat (- i)) else nat_to_str (nat i))"

subsection \<open>Strings: \<open>trim\<close> and \<open>parseInt(s, 10)\<close>\<close>

text \<open>
  The code units that \<open>String.prototype.trim\<close>, \<open>parseInt\<close> and the class \<open>\s\<close> of a
  regular expression take for white space: the white space and line terminator
  characters of ECMAScript.
\<close>

definition is_ws :: "nat \<Rightarrow> bool" where
  "is_ws c \<longleftrightarrow>
     c \<in> {9, 10, 11, 12, 13, 32, 160, 5760, 8232, 8233, 8239, 8287, 12288, 65279}
     \<or> (8192 \<le> c \<and> c \<le> 8202)"

definition trim :: "jsstr \<Rightarrow> jsstr" where
  "trim s = rev (dropWhile is_ws (rev (dropWhile is_ws s)))"

definition is_digit :: "nat \<Rightarrow> bool" where
  "is_digit c \<longleftrightarrow> 48 \<le> c \<and> c \<le> 57"

definition digits_val :: "jsstr \<Rightarrow> nat" where
  "digits_val ds = foldl (\<lambda>a d. 10 * a + (d - 48)) 0 ds"

text \<open>The sign of \<open>parseInt\<close>: a leading \<open>-\<close> (45) or \<open>+\<close> (43) is consumed.\<close>

fun strip_sign :: "jsstr \<Rightarrow> bool \<times> jsstr" where
  "strip_sign [] = (False, [])"
| "strip_sign (c # cs) =
     (if c = 45 then (True, cs) else if c = 43 then (False, cs) else (False, c # cs))"

text \<open>
  \<open>parseInt(s, 10)\<close>: leading white space is skipped, then a sign, then the longest run
  of decimal digits is read and the rest ignored; the result is the number value of
  the signed integer read (the language lets an implementation replace the digits after
  the 20th by zeros before rounding; the model rounds the exact value). With no digit
  the result is \<open>NaN\<close>.
\<close>

definition parseInt10 :: "jsstr \<Rightarrow> jsnum" where
  "parseInt10 s =
     (let (neg, u) = strip_sign (dropWhile is_ws s);
          ds = takeWhile is_digit u
      in if ds = [] then NaN
         else dbl ((if neg then - 1 else 1) * int (digits_val ds)))"

text \<open>\<open>s.replace(/\s+/g, '_')\<close>: each maximal run of white space becomes one underscore.\<close>

function collapse_ws :: "jsstr \<Rightarrow> jsstr" where
  "collapse_ws [] = []"
| "collapse_ws (c # cs) =
     (if is_ws c then 95 # collapse_ws (dropWhile is_ws cs) else c # collapse_ws cs)"
  by pat_completeness auto
termination
  by (relation "measure length") (auto simp: le_imp_less_Suc length_dropWhile_le)

subsection \<open>Truthiness, property reads and writes\<close>

fun truthy :: "jsval \<Rightarrow> bool" where
  "truthy JUndef = False"
| "truthy JNull = False"
| "truthy (JBool b) = b"
| "truthy (JNum n) = (n \<noteq> Fin 0 \<and> n \<noteq> NaN)"
| "truthy (JStr s) = (s \<noteq> [])"
| "truthy (JArr _) = True"
| "truthy (JObj _) = True"

text \<open>\<open>a || b\<close>\<close>

definition js_or :: "jsval \<Rightarrow> jsval \<Rightarrow> jsval" where
  "js_or a b = (if truthy a then a else b)"

text \<open>
  \<open>v.k\<close> for the property names this program reads (\<open>id\<close>, \<open>name\<close>, \<open>qty\<close>,
  \<open>category\<close>, \<open>note\<close>, \<open>done\<close>, \<open>items\<close>, \<open>listName\<close>, \<open>listId\<close>): on \<open>null\<close> and
  \<open>undefined\<close> the read throws a TypeError (\<open>None\<close>); an object gives its own property
  or \<open>undefined\<close>; strings, numbers, booleans and arrays have no property of these
  names, own or inherited.
\<close>

fun own_prop :: "(jsstr \<times> jsval) list \<Rightarrow> jsstr \<Rightarrow> jsval" where
  "own_prop [] k = JUndef"
| "own_prop ((k', v) # ps) k = (if k' = k then v else own_prop ps k)"

fun get_prop :: "jsval \<Rightarrow> jsstr \<Rightarrow> jsval option" where
  "get_prop JUndef k = None"
| "get_prop JNull k = None"
| "get_prop (JObj ps) k = Some (own_prop ps k)"
| "get_prop _ k = Some JUndef"

text \<open>
  The same read where it cannot throw, as a total function: \<open>undefined\<close> where the value
  has no such property (and, to make it total, for \<open>null\<close> and \<open>undefined\<close>).
\<close>

definition prop_of :: "jsval \<Rightarrow> jsstr \<Rightarrow> jsval" where
  "prop_of v k = (case get_prop v k of Some x \<Rightarrow> x | None \<Rightarrow> JUndef)"

text \<open>
  Writing a property: an existing property keeps its place in the enumeration order, a
  new one goes to the end (none of the names written here is an array index).
\<close>

fun set_own :: "(jsstr \<times> jsval) list \<Rightarrow> jsstr \<Rightarrow> jsval \<Rightarrow> (jsstr \<times> jsval) list" where
  "set_own [] k v = [(k, v)]"
| "set_own ((k', v') # ps) k v =
     (if k' = k then (k, v) # ps else (k', v') # set_own ps k v)"

text \<open>
  The own enumerable properties that \<open>{...v}\<close> copies: those of an object, the indexed
  elements of an array, the indexed code units of a string, and nothing for the other
  values (\<open>null\<close> and \<open>undefined\<close> included).
\<close>

definition indexed :: "jsval list \<Rightarrow> (jsstr \<times> jsval) list" where
  "indexed vs = map (\<lambda>(i, v). (dec_digits i, v)) (enumerate 0 vs)"

fun spread :: "jsval \<Rightarrow> (jsstr \<times> jsval) list" where
  "spread (JObj ps) = ps"
| "spread (JArr vs) = indexed vs"
| "spread (JStr s) = indexed (map (\<lambda>c. JStr [c]) s)"
| "spread _ = []"

text \<open>\<open>{ ...v, k: x }\<close>\<close>

definition spread_with :: "jsval \<Rightarrow> jsstr \<Rightarrow> jsval \<Rightarrow> jsval" where
  "spread_with v k x = JObj (set_own (spread v) k x)"

subsection \<open>String conversion and \<open>+\<close>\<close>

text \<open>
  Converting a value to a string (ToString, as \<open>+\<close>, a template literal and the setters
  of \<open>textContent\<close>, \<open>value\<close> and \<open>localStorage\<close> do) calls the \<open>toString\<close> method of an
  array or object. The values here come from \<open>JSON.parse\<close>, so no property of theirs is
  a function: an object with an own property named \<open>toString\<close> has no callable
  \<open>toString\<close>, its inherited \<open>valueOf\<close> returns the object itself, and the conversion
  throws a TypeError. Every other object is converted by \<open>Object.prototype.toString\<close>.
  An array joins the strings of its elements with commas, \<open>null\<close> and \<open>undefined\<close>
  elements giving the empty string, and throws when the conversion of an element does.
\<close>

fun str_throws :: "jsval \<Rightarrow> bool" where
  "str_throws (JObj ps) = (STR_toString \<in> fst ` set ps)"
| "str_throws (JArr vs) = (\<exists>v\<in>set vs. str_throws v)"
| "str_throws _ = False"

fun join_comma :: "jsstr list \<Rightarrow> jsstr" where
  "join_comma [] = []"
| "join_comma [s] = s"
| "join_comma (s # t # ss) = s @ 44 # join_comma (t # ss)"

fun str_of :: "jsval \<Rightarrow> jsstr" where
  "str_of JUndef = STR_undefined"
| "str_of JNull = STR_null"
| "str_of (JBool b) = (if b then STR_true else STR_false)"
| "str_of (JNum n) = num_to_str n"
| "str_of (JStr s) = s"
| "str_of (JArr vs) =
     join_comma (map (\<lambda>v. if v = JUndef \<or> v = JNull then [] else str_of v) vs)"
| "str_of (JObj _) = STR_object_Object"

definition to_str :: "jsval \<Rightarrow> jsstr option" where
  "to_str v = (if str_throws v then None else Some (str_of v))"

text \<open>
  \<open>el.textContent = v\<close>: \<open>null\<close> and \<open>undefined\<close> give the empty text, any other value
  is converted to a string.
\<close>

definition text_content :: "jsval \<Rightarrow> jsstr option" where
  "text_content v = (if v = JUndef \<or> v = JNull then Some [] else to_str v)"

text \<open>
  \<open>v + n\<close> for a number \<open>n\<close>: numbers add, \<open>null\<close>, \<open>undefined\<close> and booleans are
  converted to numbers (\<open>undefined\<close> to \<open>NaN\<close>), and a string, array or object is
  converted to a string, to which the string of \<open>n\<close> is appended.
\<close>

fun js_plus :: "jsval \<Rightarrow> jsnum \<Rightarrow> jsval option" where
  "js_plus (JNum a) n = Some (JNum (num_add a n))"
| "js_plus JNull n = Some (JNum (num_add (Fin 0) n))"
| "js_plus (JBool b) n = Some (JNum (num_add (Fin (if b then 1 else 0)) n))"
| "js_plus JUndef n = Some (JNum NaN)"
| "js_plus v n = map_option (\<lambda>t. JStr (t @ num_to_str n)) (to_str v)"

section \<open>The list state\<close>

record state =
  items :: jsval
  dark :: jsval
  listName :: jsval
  listId :: jsval

subsection \<open>addItem\<close>

text \<open>
  \<open>items.find(it => it.name === name && !it.done)\<close>, as the index of the first match.
  The callback reads \<open>it.name\<close> and, when the name matches, \<open>it.done\<close>; reading a
  property of \<open>null\<close> throws, which ends the search with the exception (\<open>None\<close>).
  The outer \<open>Some\<close> holds \<open>Some i\<close> for a match at index \<open>i\<close> and \<open>None\<close> for
  \<open>undefined\<close>.
\<close>

definition is_open_named :: "jsstr \<Rightarrow> jsval \<Rightarrow> bool option" where
  "is_open_named name it =
     do { n \<leftarrow> get_prop it STR_name;
          if n = JStr name
          then do { d \<leftarrow> get_prop it STR_done; Some (\<not> truthy d) }
          else Some False }"

fun find_index :: "('a \<Rightarrow> bool option) \<Rightarrow> 'a list \<Rightarrow> nat option option" where
  "find_index p [] = Some None"
| "find_index p (x # xs) =
     (case p x of
        None \<Rightarrow> None
      | Some True \<Rightarrow> Some (Some 0)
      | Some False \<Rightarrow> map_option (map_option Suc) (find_index p xs))"

text \<open>
  \<open>addItem()\<close> reads the four input fields; \<open>uid\<close> is what \<open>uuid()\<close> returns when called
  and \<open>now\<close> is \<open>Date.now()\<close>, an integer number of milliseconds. The result is \<open>None\<close>
  when \<open>find\<close> or the addition throws, which is before the list is touched, and the
  state after the mutation otherwise. The calls that follow the mutation (clearing the
  inputs, \<open>saveState\<close>, \<open>updateSuggestions\<close>, \<open>render\<close>) do not change the four state
  variables, also when one of them throws.
\<close>

definition new_item :: "jsstr \<Rightarrow> int \<Rightarrow> jsstr \<Rightarrow> jsnum \<Rightarrow> jsstr \<Rightarrow> jsstr \<Rightarrow> jsval \<Rightarrow> jsval" where
  "new_item uid now name qty cat note lid =
     JObj [(STR_id, JStr uid), (STR_name, JStr name), (STR_qty, JNum qty),
           (STR_category, JStr cat), (STR_note, JStr note), (STR_done, JBool False),
           (STR_createdAt, JNum (Fin now)), (STR_listId, lid)]"

text \<open>\<open>parseInt(itemQtyInput.value, 10) || 1\<close>\<close>

definition input_qty :: "jsstr \<Rightarrow> jsnum" where
  "input_qty qtyValue =
     (let n = parseInt10 qtyValue in if n \<noteq> Fin 0 \<and> n \<noteq> NaN then n else Fin 1)"

text \<open>
  \<open>v.k = x\<close>. It is only applied to the item that \<open>find\<close> returned, which has a
  \<open>name\<close> property and so is an object; on a value that is not an object the
  assignment has no effect.
\<close>

fun set_prop :: "jsval \<Rightarrow> jsstr \<Rightarrow> jsval \<Rightarrow> jsval" where
  "set_prop (JObj ps) k x = JObj (set_own ps k x)"
| "set_prop v k x = v"

definition addItem ::
  "jsstr \<Rightarrow> int \<Rightarrow> jsstr \<Rightarrow> jsstr \<Rightarrow> jsstr \<Rightarrow> jsstr \<Rightarrow> state \<Rightarrow> state option" where
  "addItem uid now nameValue qtyValue catValue noteValue s =
     (let name = trim nameValue in
      if name = [] then Some s
      else
        let qty = input_qty qtyValue;
            cat = (if catValue \<noteq> [] then catValue else CAT_other);
            note = trim noteValue
        in case items s of
             JArr xs \<Rightarrow>
               (case find_index (is_open_named name) xs of
                  None \<Rightarrow> None
                | Some (Some i) \<Rightarrow>
                    do { q \<leftarrow> get_prop (xs ! i) STR_qty;
                         v \<leftarrow> js_plus (js_or q (JNum (Fin 1))) qty;
                         Some (s\<lparr>items := JArr (xs[i := set_prop (xs ! i) STR_qty v])\<rparr>) }
                | Some None \<Rightarrow>
                    Some (s\<lparr>items := JArr (new_item uid now name qty cat note (listId s) # xs)\<rparr>))
           | _ \<Rightarrow> None)"

subsection \<open>toggleDone, removeItem, clearDoneItems\<close>

text \<open>
  \<open>Array.prototype.map\<close> and \<open>filter\<close> with a callback that may throw: the first
  exception ends the call, and the assignment \<open>items = ...\<close> does not happen.
\<close>

fun map_throw :: "('a \<Rightarrow> 'b option) \<Rightarrow> 'a list \<Rightarrow> 'b list option" where
  "map_throw f [] = Some []"
| "map_throw f (x # xs) = do { y \<leftarrow> f x; ys \<leftarrow> map_throw f xs; Some (y # ys) }"

fun filter_throw :: "('a \<Rightarrow> bool option) \<Rightarrow> 'a list \<Rightarrow> 'a list option" where
  "filter_throw p [] = Some []"
| "filter_throw p (x # xs) =
     do { b \<leftarrow> p x; ys \<leftarrow> filter_throw p xs; Some (if b then x # ys else ys) }"

text \<open>
  \<open>it => it.id === id ? { ...it, done: !it.done } : it\<close>. The identifier passed by the
  caller is a string, as every identifier made by \<open>uuid()\<close> is.
\<close>

definition toggle_one :: "jsstr \<Rightarrow> jsval \<Rightarrow> jsval option" where
  "toggle_one i it =
     do { v \<leftarrow> get_prop it STR_id;
          if v = JStr i
          then do { d \<leftarrow> get_prop it STR_done;
                    Some (spread_with it STR_done (JBool (\<not> truthy d))) }
          else Some it }"

definition toggleDone :: "jsstr \<Rightarrow> state \<Rightarrow> state option" where
  "toggleDone i s =
     (case items s of
        JArr xs \<Rightarrow> do { ys \<leftarrow> map_throw (toggle_one i) xs; Some (s\<lparr>items := JArr ys\<rparr>) }
      | _ \<Rightarrow> None)"

definition removeItem :: "jsstr \<Rightarrow> state \<Rightarrow> state option" where
  "removeItem i s =
     (case items s of
        JArr xs \<Rightarrow>
          do { ys \<leftarrow> filter_throw (\<lambda>it. do { v \<leftarrow> get_prop it STR_id; Some (v \<noteq> JStr i) }) xs;
               Some (s\<lparr>items := JArr ys\<rparr>) }
      | _ \<Rightarrow> None)"

definition clearDoneItems :: "state \<Rightarrow> state option" where
  "clearDoneItems s =
     (case items s of
        JArr xs \<Rightarrow>
          do { ys \<leftarrow> filter_throw (\<lambda>it. do { d \<leftarrow> get_prop it STR_done; Some (\<not> truthy d) }) xs;
               Some (s\<lparr>items := JArr ys\<rparr>) }
      | _ \<Rightarrow> None)"

subsection \<open>Sequences of operations\<close>

text \<open>
  The user's operations on the list, each with the inputs its handler reads: for an
  add, the value \<open>uuid()\<close> returns, \<open>Date.now()\<close> and the four input fields. A handler
  that throws leaves the state as it was.
\<close>

datatype op =
    Add jsstr int jsstr jsstr jsstr jsstr
  | Toggle jsstr
  | Remove jsstr
  | ClearDone

fun apply_op :: "op \<Rightarrow> state \<Rightarrow> state option" where
  "apply_op (Add uid now nameValue qtyValue catValue noteValue) s =
     addItem uid now nameValue qtyValue catValue noteValue s"
| "apply_op (Toggle i) s = toggleDone i s"
| "apply_op (Remove i) s = removeItem i s"
| "apply_op ClearDone s = clearDoneItems s"

definition step :: "state \<Rightarrow> op \<Rightarrow> state" where
  "step s ev = (case apply_op ev s of None \<Rightarrow> s | Some s' \<Rightarrow> s')"

definition run :: "state \<Rightarrow> op list \<Rightarrow> state" where
  "run s evs = foldl step s evs"

subsection \<open>updateSuggestions\<close>

text \<open>
  The equality of \<open>Set\<close> and \<open>Map\<close> keys (SameValueZero): primitive values are equal
  when they are the same value; an array or object is equal only to itself. The values
  compared here are properties of different items of the list, and no two items share
  an array or object (they come from \<open>JSON.parse\<close> and from shallow copies that replace
  their original), so two of them are never the same array or object.
\<close>

fun primitive :: "jsval \<Rightarrow> bool" where
  "primitive (JArr _) = False"
| "primitive (JObj _) = False"
| "primitive _ = True"

definition same_value_zero :: "jsval \<Rightarrow> jsval \<Rightarrow> bool" where
  "same_value_zero a b \<longleftrightarrow> primitive a \<and> a = b"

text \<open>\<open>Array.from(new Set(vs))\<close>: each value is added unless the set has it already.\<close>

definition set_add :: "jsval list \<Rightarrow> jsval \<Rightarrow> jsval list" where
  "set_add acc v = (if \<exists>u\<in>set acc. same_value_zero u v then acc else acc @ [v])"

definition array_from_set :: "jsval list \<Rightarrow> jsval list" where
  "array_from_set vs = foldl set_add [] vs"

text \<open>\<open>s.includes(q)\<close> on strings: \<open>q\<close> occurs in \<open>s\<close> at some position.\<close>

fun str_includes :: "jsstr \<Rightarrow> jsstr \<Rightarrow> bool" where
  "str_includes [] q = (q = [])"
| "str_includes (c # s) q = (prefix q (c # s) \<or> str_includes s q)"

text \<open>
  \<open>name.includes(query)\<close> for a pool entry of any type: a string searches for the
  substring, an array searches for an element identical to the query string, reading
  the method of \<open>undefined\<close> or \<open>null\<close> throws, and the other values have no such
  method, so that the call throws.
\<close>

fun js_includes :: "jsval \<Rightarrow> jsstr \<Rightarrow> bool option" where
  "js_includes (JStr s) q = Some (str_includes s q)"
| "js_includes (JArr vs) q = Some (JStr q \<in> set vs)"
| "js_includes _ q = None"

text \<open>
  \<open>updateSuggestions()\<close>: the names offered for the text of the name field, each on a
  button whose \<open>textContent\<close> it becomes, or \<open>None\<close> when the call throws.
\<close>

definition updateSuggestions :: "jsstr \<Rightarrow> state \<Rightarrow> jsval list option" where
  "updateSuggestions nameValue s =
     (let query = trim nameValue in
      case items s of
        JArr xs \<Rightarrow>
          do { names \<leftarrow> map_throw (\<lambda>i. get_prop i STR_name) xs;
               let pool = array_from_set (map JStr STARTER_SUGGESTIONS @ names);
               results \<leftarrow>
                 (if query = [] then Some (take 12 pool)
                  else do { hits \<leftarrow> filter_throw (\<lambda>name. js_includes name query) pool;
                            Some (take 12 hits) });
               labels \<leftarrow> map_throw text_content results;
               Some results }
      | _ \<Rightarrow> None)"

subsection \<open>render\<close>

text \<open>
  The \<open>Map\<close> from category to the items of that category, in insertion order:
  \<open>if (!groups.has(key)) groups.set(key, []); groups.get(key).push(it)\<close>.
\<close>

fun group_add :: "jsval \<Rightarrow> jsval \<Rightarrow> (jsval \<times> jsval list) list \<Rightarrow> (jsval \<times> jsval list) list" where
  "group_add k it [] = [(k, [it])]"
| "group_add k it ((k', g) # gs) =
     (if same_value_zero k' k then (k', g @ [it]) # gs else (k', g) # group_add k it gs)"

fun group_items ::
  "jsval list \<Rightarrow> (jsval \<times> jsval list) list \<Rightarrow> (jsval \<times> jsval list) list option" where
  "group_items [] gs = Some gs"
| "group_items (it # its) gs =
     do { c \<leftarrow> get_prop it STR_category;
          group_items its (group_add (js_or c (JStr CAT_other)) it gs) }"

fun map_get :: "(jsval \<times> 'a) list \<Rightarrow> jsval \<Rightarrow> 'a option" where
  "map_get [] k = None"
| "map_get ((k', g) # gs) k = (if same_value_zero k' k then Some g else map_get gs k)"

text \<open>
  The card of an item: the item itself, whose \<open>id\<close> the handlers of the checkbox and of
  the remove button read when they fire; whether the checkbox is checked (and the card
  has the class \<open>done\<close>); the text of the name; the text of the quantity line
  (the quantity label, \<open>it.qty || 1\<close> and, for a truthy note, the separator and the
  note); and the text of the category pill. Building the texts converts the values to
  strings, which may throw.
\<close>

record card =
  cardItem :: jsval
  checked :: bool
  nameText :: jsstr
  subText :: jsstr
  catText :: jsstr

definition make_card :: "jsval \<Rightarrow> card option" where
  "make_card it =
     do { d \<leftarrow> get_prop it STR_done;
          n \<leftarrow> get_prop it STR_name;
          nt \<leftarrow> text_content n;
          q \<leftarrow> get_prop it STR_qty;
          qt \<leftarrow> to_str (js_or q (JNum (Fin 1)));
          note \<leftarrow> get_prop it STR_note;
          st \<leftarrow> (if truthy note then map_option (\<lambda>t. STR_note_sep @ t) (to_str note)
                else Some []);
          c \<leftarrow> get_prop it STR_category;
          ct \<leftarrow> text_content (js_or c (JStr CAT_other));
          Some \<lparr>cardItem = it, checked = truthy d, nameText = nt,
                subText = STR_qty_label @ qt @ st, catText = ct\<rparr> }"

text \<open>
  What \<open>render()\<close> puts into the items container: the groups in order, each the text of
  a header with the cards of its items, and whether the empty message is shown. The
  first loop takes the categories of \<open>CATS\<close> that have a group, the second loop the
  groups whose key is not in \<open>CATS\<close>. \<open>None\<close> stands for a call that throws; the
  container is then left as far as it was built and the empty message as it was, a
  state that the record below does not describe.
\<close>

record view =
  groups :: "(jsstr \<times> card list) list"
  emptyShown :: bool

definition canonical_groups :: "(jsval \<times> jsval list) list \<Rightarrow> (jsstr \<times> jsval list) list" where
  "canonical_groups gs =
     concat (map (\<lambda>cat. case map_get gs (JStr cat) of
                           None \<Rightarrow> []
                         | Some g \<Rightarrow> if g \<noteq> [] then [(cat, g)] else []) CATS)"

definition other_groups :: "(jsval \<times> jsval list) list \<Rightarrow> (jsval \<times> jsval list) list" where
  "other_groups gs = filter (\<lambda>(cat, g). cat \<notin> JStr ` set CATS) gs"

definition render :: "jsstr \<Rightarrow> state \<Rightarrow> view option" where
  "render filterValue s =
     (case items s of
        JArr xs \<Rightarrow>
          do { filtered \<leftarrow>
                 (if filterValue = STR_todo
                  then filter_throw (\<lambda>it. do { d \<leftarrow> get_prop it STR_done; Some (\<not> truthy d) }) xs
                  else if filterValue = STR_done
                  then filter_throw (\<lambda>it. do { d \<leftarrow> get_prop it STR_done; Some (truthy d) }) xs
                  else Some xs);
               gs \<leftarrow> group_items filtered [];
               first \<leftarrow> map_throw (\<lambda>(cat, g). do { cards \<leftarrow> map_throw make_card g;
                                                  Some (cat, cards) })
                          (canonical_groups gs);
               second \<leftarrow> map_throw (\<lambda>(cat, g). do { header \<leftarrow> text_content cat;
                                                   cards \<leftarrow> map_throw make_card g;
                                                   Some (header, cards) })
                           (other_groups gs);
               let shown = first @ second;
               Some \<lparr>groups = shown, emptyShown = (shown = [])\<rparr> }
      | _ \<Rightarrow> None)"

subsection \<open>exportJSON and importJSON\<close>

text \<open>
  \<open>JSON.stringify(v, null, 2)\<close>. A string is quoted with the escapes of JSON: the short
  escapes, \<open>\u\<close> escapes for the other control characters and for a surrogate
  without its partner.
\<close>

definition hex_digit :: "nat \<Rightarrow> nat" where
  "hex_digit d = (if d < 10 then 48 + d else 87 + d)"

definition u_escape :: "nat \<Rightarrow> jsstr" where
  "u_escape c =
     [92, 117, hex_digit (c div 4096 mod 16), hex_digit (c div 256 mod 16),
      hex_digit (c div 16 mod 16), hex_digit (c mod 16)]"

definition is_high :: "nat \<Rightarrow> bool" where
  "is_high c \<longleftrightarrow> 55296 \<le> c \<and> c \<le> 56319"

definition is_low :: "nat \<Rightarrow> bool" where
  "is_low c \<longleftrightarrow> 56320 \<le> c \<and> c \<le> 57343"

fun quote_body :: "jsstr \<Rightarrow> jsstr" where
  "quote_body [] = []"
| "quote_body (c # cs) =
     (if c = 8 then [92, 98] @ quote_body cs
      else if c = 9 then [92, 116] @ quote_body cs
      else if c = 10 then [92, 110] @ quote_body cs
      else if c = 12 then [92, 102] @ quote_body cs
      else if c = 13 then [92, 114] @ quote_body cs
      else if c = 34 then [92, 34] @ quote_body cs
      else if c = 92 then [92, 92] @ quote_body cs
      else if c < 32 \<or> is_low c then u_escape c @ quote_body cs
      else if is_high c
      then (case cs of
              [] \<Rightarrow> u_escape c
            | d # ds \<Rightarrow> if is_low d then c # d # quote_body ds else u_escape c @ quote_body cs)
      else c # quote_body cs)"

definition quote :: "jsstr \<Rightarrow> jsstr" where
  "quote s = 34 # quote_body s @ [34]"

fun join_with :: "jsstr \<Rightarrow> jsstr list \<Rightarrow> jsstr" where
  "join_with sep [] = []"
| "join_with sep [s] = s"
| "join_with sep (s # t # ss) = s @ sep @ join_with sep (t # ss)"

text \<open>
  The text of a value at the indentation \<open>ind\<close>, or \<open>None\<close> for \<open>undefined\<close>, which an
  object leaves out and an array writes as \<open>null\<close>; a number that is not finite is
  written as \<open>null\<close> too.
\<close>

fun json_text :: "jsstr \<Rightarrow> jsval \<Rightarrow> jsstr option" where
  "json_text ind JUndef = None"
| "json_text ind JNull = Some STR_null"
| "json_text ind (JBool b) = Some (if b then STR_true else STR_false)"
| "json_text ind (JNum n) = Some (case n of Fin i \<Rightarrow> num_to_str n | _ \<Rightarrow> STR_null)"
| "json_text ind (JStr s) = Some (quote s)"
| "json_text ind (JArr vs) =
     Some (if vs = [] then [91, 93]
           else [91, 10] @ ind @ [32, 32]
                @ join_with ([44, 10] @ ind @ [32, 32])
                    (map (\<lambda>v. case json_text (ind @ [32, 32]) v of
                                 None \<Rightarrow> STR_null | Some t \<Rightarrow> t) vs)
                @ [10] @ ind @ [93])"
| "json_text ind (JObj ps) =
     (let members =
            concat (map (\<lambda>(k, v). case json_text (ind @ [32, 32]) v of
                                     None \<Rightarrow> []
                                   | Some t \<Rightarrow> [quote k @ [58, 32] @ t]) ps)
      in Some (if members = [] then [123, 125]
               else [123, 10] @ ind @ [32, 32]
                    @ join_with ([44, 10] @ ind @ [32, 32]) members
                    @ [10] @ ind @ [125]))"

text \<open>\<open>const payload = { version: 1, listName, listId, items }\<close>\<close>

definition payload :: "state \<Rightarrow> jsval" where
  "payload s =
     JObj [(STR_version, JNum (Fin 1)), (STR_listName, listName s), (STR_listId, listId s),
           (STR_items, items s)]"

text \<open>
  \<open>exportJSON()\<close>: the name and the text of the file offered for download. The text
  is made first; then \<open>listName.replace(...)\<close> throws unless the list name is a string,
  and nothing is offered (\<open>None\<close>).
\<close>

definition exportJSON :: "state \<Rightarrow> (jsstr \<times> jsstr) option" where
  "exportJSON s =
     do { doc \<leftarrow> json_text [] (payload s);
          case listName s of
            JStr name \<Rightarrow>
              Some ((if collapse_ws name \<noteq> [] then collapse_ws name else STR_list)
                      @ STR_dot_json, doc)
          | _ \<Rightarrow> None }"

datatype alert = InvalidFile | LoadError

text \<open>
  \<open>data.items.map(it => ({ ...it, id: it.id || uuid() }))\<close>; \<open>gen n\<close> is what the
  \<open>n\<close>-th call of \<open>uuid()\<close> during this import returns.
\<close>

fun import_items :: "(nat \<Rightarrow> jsstr) \<Rightarrow> nat \<Rightarrow> jsval list \<Rightarrow> jsval list option" where
  "import_items gen n [] = Some []"
| "import_items gen n (it # its) =
     do { i \<leftarrow> get_prop it STR_id;
          if truthy i
          then do { r \<leftarrow> import_items gen n its; Some (spread_with it STR_id i # r) }
          else do { r \<leftarrow> import_items gen (Suc n) its;
                    Some (spread_with it STR_id (JStr (gen n)) # r) } }"

text \<open>
  What follows the three assignments inside the \<open>try\<close>: \<open>saveState\<close> hands the list
  name and the list id to \<open>localStorage.setItem\<close> and the handler sets the value of the
  name field, each of which converts the value to a string; then come \<open>render()\<close> and
  \<open>updateSuggestions()\<close>, which read the filter and the name field. The result tells
  whether one of them throws.
\<close>

definition refresh_throws :: "jsstr \<Rightarrow> jsstr \<Rightarrow> state \<Rightarrow> bool" where
  "refresh_throws filterValue nameValue s \<longleftrightarrow>
     to_str (listName s) = None \<or> to_str (listId s) = None
     \<or> render filterValue s = None \<or> updateSuggestions nameValue s = None"

text \<open>
  The \<open>onload\<close> handler of \<open>importJSON\<close>, for the text of the file; \<open>parse\<close> is the
  platform's \<open>JSON.parse\<close>, with \<open>None\<close> where it throws a SyntaxError. Everything runs
  inside one \<open>try\<close>: a throw of \<open>JSON.parse\<close>, of \<open>data.items\<close> on \<open>null\<close> or of the
  mapping happens before any assignment; a throw of the calls that follow the
  assignments happens after the state was replaced. Each ends in the same \<open>catch\<close>.
  The result is the state afterwards and the alert shown, if any.
\<close>

definition importJSON ::
  "(jsstr \<Rightarrow> jsval option) \<Rightarrow> (nat \<Rightarrow> jsstr) \<Rightarrow> jsstr \<Rightarrow> jsstr \<Rightarrow> state \<Rightarrow> jsstr
     \<Rightarrow> state \<times> alert option" where
  "importJSON parse gen filterValue nameValue s fileText =
     (case parse fileText of
        None \<Rightarrow> (s, Some LoadError)
      | Some data \<Rightarrow>
          (case get_prop data STR_items of
             None \<Rightarrow> (s, Some LoadError)
           | Some (JArr its) \<Rightarrow>
               (case import_items gen 0 its of
                  None \<Rightarrow> (s, Some LoadError)
                | Some its' \<Rightarrow>
                    let ln = prop_of data STR_listName;
                        li = prop_of data STR_listId;
                        s' = s\<lparr>items := JArr its',
                               listName := (if truthy ln then ln else listName s),
                               listId := (if truthy li then li else listId s)\<rparr>
                    in (s', if refresh_throws filterValue nameValue s' then Some LoadError
                            else None))
           | Some _ \<Rightarrow> (s, Some InvalidFile)))"

subsection \<open>A parser of JSON texts\<close>

text \<open>
  A reference implementation of \<open>JSON.parse\<close> (ECMA-404) over the values of this
  model. White space is space, tab, line feed and carriage return. A number is read
  exactly and rounded to the nearest double; a number with a fractional part has no
  value in this model, and the parser gives \<open>None\<close> for it as it does for a text that
  is not JSON. The members of an object are defined in the order of the text, a
  repeated key replacing the value defined before.
\<close>

definition is_json_ws :: "nat \<Rightarrow> bool" where
  "is_json_ws c \<longleftrightarrow> c = 32 \<or> c = 9 \<or> c = 10 \<or> c = 13"

definition hex_val :: "nat \<Rightarrow> nat option" where
  "hex_val c =
     (if 48 \<le> c \<and> c \<le> 57 then Some (c - 48)
      else if 97 \<le> c \<and> c \<le> 102 then Some (c - 87)
      else if 65 \<le> c \<and> c \<le> 70 then Some (c - 55)
      else None)"

definition unescape :: "nat \<Rightarrow> nat option" where
  "unescape e =
     (if e = 34 \<or> e = 92 \<or> e = 47 then Some e
      else if e = 98 then Some 8
      else if e = 102 then Some 12
      else if e = 110 then Some 10
      else if e = 114 then Some 13
      else if e = 116 then Some 9
      else None)"

text \<open>The characters of a string after the opening quote, and the text after the closing one.\<close>

fun parse_chars :: "jsstr \<Rightarrow> (jsstr \<times> jsstr) option" where
  "parse_chars [] = None"
| "parse_chars (c # cs) =
     (if c = 34 then Some ([], cs)
      else if c = 92
      then (case cs of
              [] \<Rightarrow> None
            | e # cs' \<Rightarrow>
                if e = 117
                then (case cs' of
                        h1 # h2 # h3 # h4 # cs'' \<Rightarrow>
                          (case (hex_val h1, hex_val h2, hex_val h3, hex_val h4) of
                             (Some x1, Some x2, Some x3, Some x4) \<Rightarrow>
                               map_option (\<lambda>(s, r). ((4096 * x1 + 256 * x2 + 16 * x3 + x4) # s, r))
                                 (parse_chars cs'')
                           | _ \<Rightarrow> None)
                      | _ \<Rightarrow> None)
                else (case unescape e of
                        None \<Rightarrow> None
                      | Some x \<Rightarrow> map_option (\<lambda>(s, r). (x # s, r)) (parse_chars cs')))
      else if c < 32 then None
      else map_option (\<lambda>(s, r). (c # s, r)) (parse_chars cs))"

text \<open>
  A number: an optional minus sign, the integer part (a single \<open>0\<close>, or digits that do
  not start with \<open>0\<close>), an optional fraction and an optional exponent.
\<close>

definition parse_exponent :: "jsstr \<Rightarrow> (int \<times> jsstr) option" where
  "parse_exponent t =
     (case t of
        [] \<Rightarrow> Some (0, t)
      | c # cs \<Rightarrow>
          if c = 101 \<or> c = 69
          then (let (neg, u) = strip_sign cs; ds = takeWhile is_digit u
                in if ds = [] then None
                   else Some ((if neg then - 1 else 1) * int (digits_val ds), dropWhile is_digit u))
          else Some (0, t))"

definition parse_fraction :: "jsstr \<Rightarrow> (jsstr \<times> jsstr) option" where
  "parse_fraction t =
     (case t of
        [] \<Rightarrow> Some ([], t)
      | c # cs \<Rightarrow>
          if c = 46
          then (let ds = takeWhile is_digit cs
                in if ds = [] then None else Some (ds, dropWhile is_digit cs))
          else Some ([], t))"

definition parse_number :: "jsstr \<Rightarrow> (jsnum \<times> jsstr) option" where
  "parse_number t =
     (let (neg, u) = (case t of [] \<Rightarrow> (False, t) | c # cs \<Rightarrow> if c = 45 then (True, cs) else (False, t));
          ip = takeWhile is_digit u
      in if ip = [] \<or> (hd ip = 48 \<and> tl ip \<noteq> []) then None
         else do { (fp, r) \<leftarrow> parse_fraction (dropWhile is_digit u);
                   (ex, r') \<leftarrow> parse_exponent r;
                   let m = int (digits_val (ip @ fp));
                   let e = ex - int (length fp);
                   let sg = (if neg then - 1 else 1);
                   if 0 \<le> e then Some (dbl (sg * m * 10 ^ nat e), r')
                   else if m mod 10 ^ nat (- e) = 0 then Some (dbl (sg * (m div 10 ^ nat (- e))), r')
                   else None })"

text \<open>
  A value, the elements of an array after its opening bracket, and the members of an
  object after its opening brace. The first argument bounds the number of nested
  calls; each call reads at least one character of the text, so that the length of the
  text is bound enough.
\<close>

fun parse_value :: "nat \<Rightarrow> jsstr \<Rightarrow> (jsval \<times> jsstr) option"
  and parse_elems :: "nat \<Rightarrow> jsstr \<Rightarrow> (jsval list \<times> jsstr) option"
  and parse_members :: "nat \<Rightarrow> jsstr \<Rightarrow> ((jsstr \<times> jsval) list \<times> jsstr) option" where
  "parse_value 0 t = None"
| "parse_value (Suc n) t =
     (case dropWhile is_json_ws t of
        [] \<Rightarrow> None
      | c # cs \<Rightarrow>
          if c = 110 then (if take 3 cs = [117, 108, 108] then Some (JNull, drop 3 cs) else None)
          else if c = 116
          then (if take 3 cs = [114, 117, 101] then Some (JBool True, drop 3 cs) else None)
          else if c = 102
          then (if take 4 cs = [97, 108, 115, 101] then Some (JBool False, drop 4 cs) else None)
          else if c = 34 then map_option (\<lambda>(s, r). (JStr s, r)) (parse_chars cs)
          else if c = 91
          then (case dropWhile is_json_ws cs of
                  [] \<Rightarrow> None
                | d # r \<Rightarrow> if d = 93 then Some (JArr [], r)
                           else map_option (\<lambda>(vs, r). (JArr vs, r)) (parse_elems n cs))
          else if c = 123
          then (case dropWhile is_json_ws cs of
                  [] \<Rightarrow> None
                | d # r \<Rightarrow> if d = 125 then Some (JObj [], r)
                           else map_option
                                  (\<lambda>(ms, r). (JObj (foldl (\<lambda>ps (k, v). set_own ps k v) [] ms), r))
                                  (parse_members n cs))
          else if c = 45 \<or> is_digit c
          then map_option (\<lambda>(x, r). (JNum x, r)) (parse_number (c # cs))
          else None)"
| "parse_elems 0 t = None"
| "parse_elems (Suc n) t =
     (case parse_value n t of
        None \<Rightarrow> None
      | Some (v, r) \<Rightarrow>
          (case dropWhile is_json_ws r of
             [] \<Rightarrow> None
           | c # r' \<Rightarrow>
               if c = 44 then map_option (\<lambda>(vs, r''). (v # vs, r'')) (parse_elems n r')
               else if c = 93 then Some ([v], r')
               else None))"
| "parse_members 0 t = None"
| "parse_members (Suc n) t =
     (case dropWhile is_json_ws t of
        [] \<Rightarrow> None
      | c # cs \<Rightarrow>
          if c = 34
          then (case parse_chars cs of
                  None \<Rightarrow> None
                | Some (k, r) \<Rightarrow>
                    (case dropWhile is_json_ws r of
                       [] \<Rightarrow> None
                     | c2 # r2 \<Rightarrow>
                         if c2 = 58
                         then (case parse_value n r2 of
                                 None \<Rightarrow> None
                               | Some (v, r3) \<Rightarrow>
                                   (case dropWhile is_json_ws r3 of
                                      [] \<Rightarrow> None
                                    | c3 # r4 \<Rightarrow>
                                        if c3 = 44
                                        then map_option (\<lambda>(ms, r5). ((k, v) # ms, r5))
                                               (parse_members n r4)
                                        else if c3 = 125 then Some ([(k, v)], r4)
                                        else None))
                         else None))
          else None)"

definition JSON_parse :: "jsstr \<Rightarrow> jsval option" where
  "JSON_parse t =
     (case parse_value (Suc (length t)) t of
        None \<Rightarrow> None
      | Some (v, r) \<Rightarrow> if dropWhile is_json_ws r = [] then Some v else None)"

subsection \<open>loadState\<close>

text \<open>
  A read of a storage slot: \<open>localStorage.getItem\<close> returns the stored string or
  \<open>null\<close>, or the access itself throws (storage disabled).
\<close>

datatype slot = Throws | Absent | Stored jsstr

text \<open>
  \<open>loadState()\<close>, with one \<open>try\<close> block per slot; \<open>uid\<close> is what the call of
  \<open>uuid()\<close> at its start returns.
\<close>

definition loadState :: "(jsstr \<Rightarrow> jsval option) \<Rightarrow> (jsstr \<Rightarrow> slot) \<Rightarrow> jsstr \<Rightarrow> state" where
  "loadState parse storage uid =
     \<lparr>items =
        (case storage KEY_items of
           Stored raw \<Rightarrow>
             if raw \<noteq> [] then (case parse raw of Some v \<Rightarrow> v | None \<Rightarrow> JArr [])
             else JArr []
         | _ \<Rightarrow> JArr []),
      dark =
        (case storage KEY_dark of
           Throws \<Rightarrow> JBool False
         | Absent \<Rightarrow> (case parse STR_false of Some v \<Rightarrow> v | None \<Rightarrow> JBool False)
         | Stored raw \<Rightarrow>
             (case parse (if raw \<noteq> [] then raw else STR_false) of
                Some v \<Rightarrow> v | None \<Rightarrow> JBool False)),
      listName =
        (case storage KEY_listName of
           Stored name \<Rightarrow> if name \<noteq> [] then JStr name else JStr DEFAULT_listName
         | _ \<Rightarrow> JStr DEFAULT_listName),
      listId =
        (case storage KEY_listId of
           Stored i \<Rightarrow> if i \<noteq> [] then JStr i else JStr uid
         | _ \<Rightarrow> JStr uid)\<rparr>"

section \<open>Notions used in the statements\<close>

text \<open>A value whose properties can be read without a TypeError.\<close>

definition readable :: "jsval \<Rightarrow> bool" where
  "readable v \<longleftrightarrow> v \<noteq> JNull \<and> v \<noteq> JUndef"

text \<open>An unfinished item of the given name: \<open>it.name === name && !it.done\<close>.\<close>

definition open_named :: "jsstr \<Rightarrow> jsval \<Rightarrow> bool" where
  "open_named name it \<longleftrightarrow>
     prop_of it STR_name = JStr name \<and> \<not> truthy (prop_of it STR_done)"

text \<open>The quantity of an item as the program reads it everywhere: \<open>it.qty || 1\<close>.\<close>

definition shown_qty :: "jsval \<Rightarrow> jsval" where
  "shown_qty it = js_or (prop_of it STR_qty) (JNum (Fin 1))"

text \<open>The identifiers of the items, in list order.\<close>

definition item_ids :: "state \<Rightarrow> jsval list" where
  "item_ids s = (case items s of JArr xs \<Rightarrow> map (\<lambda>it. prop_of it STR_id) xs | _ \<Rightarrow> [])"

text \<open>
  The identifier generator returns identifiers not already present: every add of the
  sequence is handed an identifier that no item has at that moment.
\<close>

fun fresh_ids :: "state \<Rightarrow> op list \<Rightarrow> bool" where
  "fresh_ids s [] = True"
| "fresh_ids s (ev # evs) =
     ((case ev of Add uid _ _ _ _ _ \<Rightarrow> JStr uid \<notin> set (item_ids s) | _ \<Rightarrow> True)
      \<and> fresh_ids (step s ev) evs)"

text \<open>
  Removing duplicates while keeping the first occurrence of each element, as the
  specification describes the suggestion pool and the order of the groups.
\<close>

function keep_first :: "'a list \<Rightarrow> 'a list" where
  "keep_first [] = []"
| "keep_first (x # xs) = x # keep_first (removeAll x xs)"
  by pat_completeness auto
termination
  by (relation "measure length") (auto simp: less_Suc_eq_le length_removeAll_less_eq)

text \<open>The category under which \<open>render\<close> files an item: \<open>it.category || CAT_other\<close>.\<close>

definition category_key :: "jsval \<Rightarrow> jsval" where
  "category_key it = js_or (prop_of it STR_category) (JStr CAT_other)"

text \<open>
  The subset that a filter selects: the unfinished items for \<open>todo\<close> (active), the
  finished ones for \<open>done\<close> (completed), and all items for any other value.
\<close>

definition selected :: "jsstr \<Rightarrow> jsval list \<Rightarrow> jsval list" where
  "selected filterValue xs =
     (if filterValue = STR_todo then filter (\<lambda>it. \<not> truthy (prop_of it STR_done)) xs
      else if filterValue = STR_done then filter (\<lambda>it. truthy (prop_of it STR_done)) xs
      else xs)"

text \<open>The items of one category, in the order of the given sequence.\<close>

definition in_category :: "jsval \<Rightarrow> jsval list \<Rightarrow> jsval list" where
  "in_category k sel = filter (\<lambda>it. category_key it = k) sel"

text \<open>
  The text that \<open>textContent\<close> shows for a value whose conversion does not throw, and
  the card of an item whose texts can be built.
\<close>

definition text_of :: "jsval \<Rightarrow> jsstr" where
  "text_of v = (if v = JUndef \<or> v = JNull then [] else str_of v)"

definition card_of :: "jsval \<Rightarrow> card" where
  "card_of it =
     \<lparr>cardItem = it, checked = truthy (prop_of it STR_done),
      nameText = text_of (prop_of it STR_name),
      subText = STR_qty_label @ str_of (shown_qty it)
                @ (if truthy (prop_of it STR_note) then STR_note_sep @ str_of (prop_of it STR_note)
                   else []),
      catText = text_of (category_key it)\<rparr>"

text \<open>
  An item that \<open>render\<close> can show: it can be read, its category is a primitive value
  (a string, or missing) and its name, quantity and note can be converted to strings.
\<close>

definition showable :: "jsval \<Rightarrow> bool" where
  "showable it \<longleftrightarrow>
     readable it \<and> primitive (prop_of it STR_category) \<and> \<not> str_throws (prop_of it STR_name)
     \<and> \<not> str_throws (prop_of it STR_qty) \<and> \<not> str_throws (prop_of it STR_note)"

text \<open>Strings and states of the specification's scenarios.\<close>

abbreviation STR_Milk :: jsstr where "STR_Milk \<equiv> [77, 105, 108, 107]"
abbreviation STR_Bread :: jsstr where "STR_Bread \<equiv> [66, 114, 101, 97, 100]"
abbreviation STR_Dairy :: jsstr where "STR_Dairy \<equiv> [68, 97, 105, 114, 121]"
abbreviation STR_Bakery :: jsstr where "STR_Bakery \<equiv> [66, 97, 107, 101, 114, 121]"
abbreviation STR_Produce :: jsstr where "STR_Produce \<equiv> [80, 114, 111, 100, 117, 99, 101]"

definition empty_list :: state where
  "empty_list =
     \<lparr>items = JArr [], dark = JBool False, listName = JStr DEFAULT_listName,
      listId = JStr [76, 49]\<rparr>"

text \<open>Files of the examples; \<open>DOC_open_brace\<close> is not JSON.\<close>

abbreviation DOC_null :: jsstr where "DOC_null \<equiv> [110, 117, 108, 108]"
abbreviation DOC_five :: jsstr where "DOC_five \<equiv> [53]"
abbreviation DOC_empty_array :: jsstr where "DOC_empty_array \<equiv> [91, 93]"
abbreviation DOC_open_brace :: jsstr where "DOC_open_brace \<equiv> [123]"
abbreviation DOC_items_not_array :: jsstr where
  "DOC_items_not_array \<equiv>
     [123, 34, 105, 116, 101, 109, 115, 34, 58, 34, 110, 111, 116, 45, 97, 110, 45, 97, 114,
      114, 97, 121, 34, 125]"
abbreviation DOC_numeric_listName :: jsstr where
  "DOC_numeric_listName \<equiv>
     [123, 34, 108, 105, 115, 116, 78, 97, 109, 101, 34, 58, 53, 44, 34, 105, 116, 101, 109,
      115, 34, 58, 91, 93, 125]"
abbreviation DOC_one_item :: jsstr where
  "DOC_one_item \<equiv>
     [123, 34, 105, 116, 101, 109, 115, 34, 58, 91, 123, 34, 110, 97, 109, 101, 34, 58, 34,
      77, 105, 108, 107, 34, 125, 93, 125]"

abbreviation DOC_numeric_name :: jsstr where
  "DOC_numeric_name \<equiv>
     [123, 34, 105, 116, 101, 109, 115, 34, 58, 91, 123, 34, 110, 97, 109, 101, 34, 58, 53,
      125, 93, 125]"

abbreviation STR_Home :: jsstr where "STR_Home \<equiv> [72, 111, 109, 101]"

definition home_list :: state where
  "home_list =
     \<lparr>items = JArr [JObj [(STR_id, JStr [97]), (STR_name, JStr STR_Milk), (STR_qty, JNum (Fin 2))],
                    JObj [(STR_name, JStr STR_Bread)]],
      dark = JBool True, listName = JStr STR_Home, listId = JStr [76, 49]\<rparr>"

definition DOC_home :: jsstr where
  "DOC_home =
     [123, 10, 32, 32, 34, 118, 101, 114, 115, 105, 111, 110, 34, 58, 32, 49, 44, 10, 32, 32,
      34, 108, 105, 115, 116, 78, 97, 109, 101, 34, 58, 32, 34, 72, 111, 109, 101, 34, 44, 10,
      32, 32, 34, 108, 105, 115, 116, 73, 100, 34, 58, 32, 34, 76, 49, 34, 44, 10, 32, 32, 34,
      105, 116, 101, 109, 115, 34, 58, 32, 91, 10, 32, 32, 32, 32, 123, 10, 32, 32, 32, 32, 32,
      32, 34, 105, 100, 34, 58, 32, 34, 97, 34, 44, 10, 32, 32, 32, 32, 32, 32, 34, 110, 97,
      109, 101, 34, 58, 32, 34, 77, 105, 108, 107, 34, 44, 10, 32, 32, 32, 32, 32, 32, 34, 113,
      116, 121, 34, 58, 32, 50, 10, 32, 32, 32, 32, 125, 44, 10, 32, 32, 32, 32, 123, 10, 32,
      32, 32, 32, 32, 32, 34, 110, 97, 109, 101, 34, 58, 32, 34, 66, 114, 101, 97, 100, 34, 10,
      32, 32, 32, 32, 125, 10, 32, 32, 93, 10, 125]"

section \<open>Adding an item\<close>

subsection \<open>Numbers below \<open>2 ^ 53\<close>\<close>

lemma dbl_exact: "\<bar>x\<bar> < 2 ^ 53 \<Longrightarrow> dbl x = Fin x"
proof -
  assume a: "\<bar>x\<bar> < 2 ^ 53"
  then have "nat \<bar>x\<bar> < 2 ^ 53"
    by (simp add: nat_less_iff)
  then have r: "round_nat (nat \<bar>x\<bar>) = nat \<bar>x\<bar>"
    by (simp add: round_nat_def)
  have "nat \<bar>x\<bar> < 2 ^ 1024"
    using \<open>nat \<bar>x\<bar> < 2 ^ 53\<close> by (rule less_trans) simp
  then show ?thesis
    by (simp add: dbl_def r Let_def not_le [symmetric])
qed

lemma dbl_nonneg: "0 \<le> x \<Longrightarrow> dbl x = PosInf \<or> (\<exists>y\<ge>0. dbl x = Fin y)"
  by (simp add: dbl_def Let_def)

subsection \<open>Reading and writing properties\<close>

lemma get_prop_readable: "readable v \<Longrightarrow> get_prop v k = Some (prop_of v k)"
  by (cases v) (simp_all add: readable_def prop_of_def)

lemma prop_of_JObj: "prop_of (JObj ps) k = own_prop ps k"
  by (simp add: prop_of_def)

lemma own_prop_set_own_same: "own_prop (set_own ps k v) k = v"
  by (induction ps) auto

lemma own_prop_set_own_other: "k' \<noteq> k \<Longrightarrow> own_prop (set_own ps k v) k' = own_prop ps k'"
  by (induction ps) auto

lemma prop_of_set_prop_other: "k' \<noteq> k \<Longrightarrow> prop_of (set_prop v k x) k' = prop_of v k'"
  by (cases v) (simp_all add: prop_of_def own_prop_set_own_other)

lemma prop_of_spread_with_other:
  "k' \<noteq> k \<Longrightarrow> prop_of (spread_with (JObj ps) k x) k' = own_prop ps k'"
  by (simp add: spread_with_def prop_of_def own_prop_set_own_other)

subsection \<open>The search for the item to merge into\<close>

lemma find_index_Some_Some:
  "find_index p xs = Some (Some i) \<Longrightarrow>
     i < length xs \<and> p (xs ! i) = Some True \<and> (\<forall>j<i. p (xs ! j) = Some False)"
proof (induction xs arbitrary: i)
  case Nil
  then show ?case by simp
next
  case (Cons x xs)
  show ?case
  proof (cases "p x")
    case None
    with Cons.prems show ?thesis by simp
  next
    case (Some b)
    show ?thesis
    proof (cases b)
      case True
      with Some Cons.prems show ?thesis by simp
    next
      case False
      with Some Cons.prems obtain i' where i': "find_index p xs = Some (Some i')" "i = Suc i'"
        by (auto simp: map_option_case split: option.splits)
      from Cons.IH [OF i'(1)] i'(2) Some False show ?thesis
        by (auto simp: less_Suc_eq_0_disj)
    qed
  qed
qed


lemma find_index_first:
  "i < length xs \<Longrightarrow> p (xs ! i) = Some True \<Longrightarrow> \<forall>j<i. p (xs ! j) = Some False \<Longrightarrow>
     find_index p xs = Some (Some i)"
proof (induction xs arbitrary: i)
  case Nil
  then show ?case by simp
next
  case (Cons x xs)
  show ?case
  proof (cases i)
    case 0
    with Cons.prems show ?thesis by simp
  next
    case (Suc i')
    with Cons.prems have "p x = Some False" by auto
    moreover from Suc Cons.prems have "find_index p xs = Some (Some i')"
      by (intro Cons.IH) auto
    ultimately show ?thesis using Suc by simp
  qed
qed


lemma is_open_named_readable:
  "readable it \<Longrightarrow> is_open_named name it = Some (open_named name it)"
  by (simp add: is_open_named_def open_named_def get_prop_readable)

lemma is_open_named_True:
  "is_open_named name it = Some True \<Longrightarrow> (\<exists>ps. it = JObj ps) \<and> open_named name it"
  by (cases it) (auto simp: is_open_named_def open_named_def prop_of_def split: if_splits)


lemma open_named_readable: "open_named name it \<Longrightarrow> readable it"
  by (cases it) (auto simp: open_named_def prop_of_def readable_def)

subsection \<open>The two branches of addItem\<close>

lemma addItem_merge:
  assumes "trim nameValue \<noteq> []" and "items s = JArr xs"
    and "find_index (is_open_named (trim nameValue)) xs = Some (Some i)"
  shows "addItem uid now nameValue qtyValue catValue noteValue s =
           (case js_plus (shown_qty (xs ! i)) (input_qty qtyValue) of
              None \<Rightarrow> None
            | Some v \<Rightarrow> Some (s\<lparr>items := JArr (xs[i := set_prop (xs ! i) STR_qty v])\<rparr>))"
proof -
  from find_index_Some_Some [OF assms(3)]
  have "is_open_named (trim nameValue) (xs ! i) = Some True" by simp
  then obtain ps where "xs ! i = JObj ps"
    using is_open_named_True by blast
  then show ?thesis
    using assms
    by (simp add: addItem_def Let_def shown_qty_def prop_of_def split: option.splits)
qed

lemma addItem_create:
  assumes "trim nameValue \<noteq> []" and "items s = JArr xs"
    and "find_index (is_open_named (trim nameValue)) xs = Some None"
  shows "addItem uid now nameValue qtyValue catValue noteValue s =
           Some (s\<lparr>items := JArr (new_item uid now (trim nameValue) (input_qty qtyValue)
             (if catValue \<noteq> [] then catValue else CAT_other) (trim noteValue) (listId s) # xs)\<rparr>)"
  using assms by (simp add: addItem_def Let_def)

lemmas addItem_eval =
  addItem_def Let_def trim_def is_ws_def input_qty_def parseInt10_def is_digit_def
  digits_val_def is_open_named_def new_item_def js_or_def empty_list_def dbl_exact

text \<open>
  C9. Adding with a name that trims to the empty string (empty, or white space only)
  returns at once: the state, and so the item sequence, is unchanged, whatever the
  other inputs and whatever the state holds.
\<close>

theorem addItem_blank_name_unchanged:
  "trim nameValue = [] \<Longrightarrow>
     addItem uid now nameValue qtyValue catValue noteValue s = Some s"
  by (simp add: addItem_def)

theorem addItem_blank_name_unchanged_witness:
  "trim [32, 9, 32] = [] \<and>
   addItem [117] 0 [32, 9, 32] [50] [] []
     \<lparr>items = JArr [JNum (Fin 5)], dark = JBool False, listName = JStr [76], listId = JStr [49]\<rparr>
   = Some \<lparr>items = JArr [JNum (Fin 5)], dark = JBool False, listName = JStr [76], listId = JStr [49]\<rparr>"
proof -
  have h: "trim [32, 9, 32] = []"
    by (simp add: trim_def is_ws_def)
  show ?thesis
    using h addItem_blank_name_unchanged [OF h] by simp
qed




text \<open>
  C10. When the first unfinished item of the given name is at position \<open>i\<close> (the items
  before it can be read and are not such items), the add either throws in the addition
  \<open>(existing.qty || 1) + qty\<close>, before anything is assigned, or it changes nothing but the
  \<open>qty\<close> property of that item, which becomes the value of that addition: the list keeps
  its length, every other item is the same, the item stays at position \<open>i\<close>, and each of
  its properties other than \<open>qty\<close> (\<open>id\<close>, \<open>name\<close>, \<open>category\<close>, \<open>note\<close>, \<open>done\<close>,
  \<open>createdAt\<close> among them) reads as before. The result does not depend on the category,
  the note, the generated identifier or the time of the call.
\<close>

theorem addItem_merge_frame:
  assumes "trim nameValue \<noteq> []" and "items s = JArr xs"
    and "i < length xs" and "open_named (trim nameValue) (xs ! i)"
    and "\<forall>j<i. readable (xs ! j) \<and> \<not> open_named (trim nameValue) (xs ! j)"
  shows "(js_plus (shown_qty (xs ! i)) (input_qty qtyValue) = None \<longrightarrow>
            addItem uid now nameValue qtyValue catValue noteValue s = None) \<and>
         (\<forall>v. js_plus (shown_qty (xs ! i)) (input_qty qtyValue) = Some v \<longrightarrow>
            (\<exists>ys. addItem uid now nameValue qtyValue catValue noteValue s
                     = Some (s\<lparr>items := JArr ys\<rparr>) \<and>
                  length ys = length xs \<and>
                  (\<forall>j<length xs. j \<noteq> i \<longrightarrow> ys ! j = xs ! j) \<and>
                  prop_of (ys ! i) STR_qty = v \<and>
                  (\<forall>k. k \<noteq> STR_qty \<longrightarrow> prop_of (ys ! i) k = prop_of (xs ! i) k))) \<and>
         addItem uid' now' nameValue qtyValue catValue' noteValue' s =
           addItem uid now nameValue qtyValue catValue noteValue s"
proof -
  let ?n = "trim nameValue"
  have "is_open_named ?n (xs ! i) = Some True"
    using assms(4) by (simp add: is_open_named_readable open_named_readable)
  moreover have "\<forall>j<i. is_open_named ?n (xs ! j) = Some False"
    using assms(5) by (simp add: is_open_named_readable)
  ultimately have some: "find_index (is_open_named ?n) xs = Some (Some i)"
    using assms(3) by (intro find_index_first) auto
  from assms(4) obtain ps where ps: "xs ! i = JObj ps"
    by (cases "xs ! i") (auto simp: open_named_def prop_of_def)
  note merge = addItem_merge [OF assms(1,2) some]
  have 1: "js_plus (shown_qty (xs ! i)) (input_qty qtyValue) = None \<longrightarrow>
            addItem uid now nameValue qtyValue catValue noteValue s = None"
    by (simp add: merge)
  have 2: "\<exists>ys. addItem uid now nameValue qtyValue catValue noteValue s
                     = Some (s\<lparr>items := JArr ys\<rparr>) \<and>
                  length ys = length xs \<and>
                  (\<forall>j<length xs. j \<noteq> i \<longrightarrow> ys ! j = xs ! j) \<and>
                  prop_of (ys ! i) STR_qty = v \<and>
                  (\<forall>k. k \<noteq> STR_qty \<longrightarrow> prop_of (ys ! i) k = prop_of (xs ! i) k)"
    if v: "js_plus (shown_qty (xs ! i)) (input_qty qtyValue) = Some v" for v
  proof -
    let ?ys = "xs[i := set_prop (xs ! i) STR_qty v]"
    have a: "prop_of (?ys ! i) STR_qty = v"
      using assms(3) ps by (simp add: prop_of_JObj own_prop_set_own_same)
    have b: "\<forall>k. k \<noteq> STR_qty \<longrightarrow> prop_of (?ys ! i) k = prop_of (xs ! i) k"
      using assms(3) by (simp add: prop_of_set_prop_other)
    have c: "\<forall>j<length xs. j \<noteq> i \<longrightarrow> ?ys ! j = xs ! j"
      by simp
    have "addItem uid now nameValue qtyValue catValue noteValue s = Some (s\<lparr>items := JArr ?ys\<rparr>)"
      using v by (simp add: merge)
    with a b c show ?thesis
      by (intro exI [of _ ?ys]) simp
  qed
  have 3: "addItem uid' now' nameValue qtyValue catValue' noteValue' s =
             addItem uid now nameValue qtyValue catValue noteValue s"
    by (simp only: merge)
  from 1 2 3 show ?thesis by blast
qed

theorem addItem_merge_frame_witness:
  "addItem [117, 57] 3000 [32, 77, 105, 108, 107, 32] [52] STR_Bakery [110]
     (empty_list\<lparr>items := JArr
        [JObj [(STR_id, JStr [97]), (STR_name, JStr STR_Milk), (STR_qty, JNum (Fin 1)),
               (STR_category, JStr STR_Dairy), (STR_done, JBool True)],
         JObj [(STR_id, JStr [98]), (STR_name, JStr STR_Milk), (STR_qty, JNum (Fin 2)),
               (STR_category, JStr STR_Dairy), (STR_done, JBool False)],
         JObj [(STR_id, JStr [99]), (STR_name, JStr STR_Milk), (STR_qty, JNum (Fin 5)),
               (STR_category, JStr STR_Dairy), (STR_done, JBool False)]]\<rparr>)
   = Some (empty_list\<lparr>items := JArr
        [JObj [(STR_id, JStr [97]), (STR_name, JStr STR_Milk), (STR_qty, JNum (Fin 1)),
               (STR_category, JStr STR_Dairy), (STR_done, JBool True)],
         JObj [(STR_id, JStr [98]), (STR_name, JStr STR_Milk), (STR_qty, JNum (Fin 6)),
               (STR_category, JStr STR_Dairy), (STR_done, JBool False)],
         JObj [(STR_id, JStr [99]), (STR_name, JStr STR_Milk), (STR_qty, JNum (Fin 5)),
               (STR_category, JStr STR_Dairy), (STR_done, JBool False)]]\<rparr>)
   \<and>
   addItem [117, 57] 3000 [32, 77, 105, 108, 107, 32] [52] STR_Bakery [110]
     (empty_list\<lparr>items := JArr
        [JObj [(STR_id, JStr [98]), (STR_name, JStr STR_Milk),
               (STR_qty, JObj [(STR_toString, JNull)])]]\<rparr>)
   = None"
proof -
  let ?a = "JObj [(STR_id, JStr [97]), (STR_name, JStr STR_Milk), (STR_qty, JNum (Fin 1)),
               (STR_category, JStr STR_Dairy), (STR_done, JBool True)]"
  let ?b = "JObj [(STR_id, JStr [98]), (STR_name, JStr STR_Milk), (STR_qty, JNum (Fin 2)),
               (STR_category, JStr STR_Dairy), (STR_done, JBool False)]"
  let ?c = "JObj [(STR_id, JStr [99]), (STR_name, JStr STR_Milk), (STR_qty, JNum (Fin 5)),
               (STR_category, JStr STR_Dairy), (STR_done, JBool False)]"
  let ?d = "JObj [(STR_id, JStr [98]), (STR_name, JStr STR_Milk),
               (STR_qty, JObj [(STR_toString, JNull)])]"
  let ?s = "empty_list\<lparr>items := JArr [?a, ?b, ?c]\<rparr>"
  let ?s' = "empty_list\<lparr>items := JArr [?d]\<rparr>"
  have t: "trim [32, 77, 105, 108, 107, 32] = STR_Milk"
    by (simp add: trim_def is_ws_def)
  have four: "input_qty [52] = Fin 4"
    by (simp add: addItem_eval)
  have h1: "trim [32, 77, 105, 108, 107, 32] \<noteq> []"
    by (simp add: t)
  have h2: "items ?s = JArr [?a, ?b, ?c]" and h2': "items ?s' = JArr [?d]"
    by simp_all
  have h3: "(1::nat) < length [?a, ?b, ?c]" and h3': "(0::nat) < length [?d]"
    by simp_all
  have h4: "open_named (trim [32, 77, 105, 108, 107, 32]) ([?a, ?b, ?c] ! 1)"
    and h4': "open_named (trim [32, 77, 105, 108, 107, 32]) ([?d] ! 0)"
    by (simp_all add: t open_named_def prop_of_def)
  have h5: "\<forall>j<1. readable ([?a, ?b, ?c] ! j)
              \<and> \<not> open_named (trim [32, 77, 105, 108, 107, 32]) ([?a, ?b, ?c] ! j)"
    and h5': "\<forall>j<0. readable ([?d] ! j)
              \<and> \<not> open_named (trim [32, 77, 105, 108, 107, 32]) ([?d] ! j)"
    by (simp_all add: t open_named_def prop_of_def readable_def)
  have sum: "js_plus (shown_qty ([?a, ?b, ?c] ! 1)) (input_qty [52]) = Some (JNum (Fin 6))"
    by (simp add: shown_qty_def prop_of_def js_or_def four dbl_exact)
  have thrown: "js_plus (shown_qty ([?d] ! 0)) (input_qty [52]) = None"
    by (simp add: shown_qty_def prop_of_def js_or_def to_str_def)
  from addItem_merge_frame [OF h1 h2 h3 h4 h5, where uid = "[117, 57]" and now = 3000
      and qtyValue = "[52]" and catValue = STR_Bakery and noteValue = "[110]"
      and uid' = "[]" and now' = 0 and catValue' = "[]" and noteValue' = "[]"] sum
  have "\<exists>ys. addItem [117, 57] 3000 [32, 77, 105, 108, 107, 32] [52] STR_Bakery [110] ?s
           = Some (?s\<lparr>items := JArr ys\<rparr>) \<and> length ys = 3"
    by auto
  moreover
  from addItem_merge_frame [OF h1 h2' h3' h4' h5', where uid = "[117, 57]" and now = 3000
      and qtyValue = "[52]" and catValue = STR_Bakery and noteValue = "[110]"
      and uid' = "[]" and now' = 0 and catValue' = "[]" and noteValue' = "[]"] thrown
  have "addItem [117, 57] 3000 [32, 77, 105, 108, 107, 32] [52] STR_Bakery [110] ?s' = None"
    by simp
  ultimately show ?thesis
    by (simp add: addItem_eval to_str_def)
qed

text \<open>
  C3, at the input the coercion misses. \<open>parseInt("-5", 10) || 1\<close> is \<open>-5\<close>: a negative
  number is truthy, so the default 1 is not taken and the item is created with the
  quantity \<open>-5\<close>.
\<close>

theorem addItem_negative_quantity:
  "addItem [117, 49] 1000 STR_Milk [45, 53] STR_Dairy [] empty_list
   = Some (empty_list\<lparr>items := JArr
       [new_item [117, 49] 1000 STR_Milk (Fin (- 5)) STR_Dairy [] (JStr [76, 49])]\<rparr>)"
  by (simp add: addItem_eval)

text \<open>
  Where the text of the quantity field has no leading minus sign, the coercion does
  give a quantity of at least 1 (or infinity, for a text of more than 308 digits).
\<close>

lemma input_qty_unsigned:
  assumes "case dropWhile is_ws qtyValue of [] \<Rightarrow> True | c # _ \<Rightarrow> c \<noteq> 45"
  shows "input_qty qtyValue = PosInf \<or> (\<exists>n\<ge>1. input_qty qtyValue = Fin n)"
proof -
  from assms have "fst (strip_sign (dropWhile is_ws qtyValue)) = False"
    by (cases "dropWhile is_ws qtyValue") (simp_all del: dropWhile_eq_Nil_conv)
  then have "parseInt10 qtyValue = NaN \<or> (\<exists>v\<ge>0. parseInt10 qtyValue = dbl v)"
    by (cases "strip_sign (dropWhile is_ws qtyValue)")
      (auto simp: parseInt10_def Let_def intro: exI [of _ "int (digits_val ds)" for ds])
  then have "parseInt10 qtyValue = NaN \<or> parseInt10 qtyValue = PosInf
               \<or> (\<exists>y\<ge>0. parseInt10 qtyValue = Fin y)"
    using dbl_nonneg by metis
  then show ?thesis
    by (auto simp: input_qty_def Let_def)
qed

section \<open>Identifiers stay unique\<close>

lemma filter_throw_Some:
  "filter_throw p xs = Some ys \<Longrightarrow> ys = filter (\<lambda>x. p x = Some True) xs"
  by (induction xs arbitrary: ys) (auto split: bind_splits if_splits)

lemma toggle_one_id:
  "toggle_one i it = Some it' \<Longrightarrow> prop_of it' STR_id = prop_of it STR_id"
  by (cases it)
     (auto simp: toggle_one_def prop_of_spread_with_other prop_of_JObj
           split: bind_splits if_splits)

lemma map_throw_toggle_ids:
  "map_throw (toggle_one i) xs = Some ys \<Longrightarrow>
     map (\<lambda>it. prop_of it STR_id) ys = map (\<lambda>it. prop_of it STR_id) xs"
  by (induction xs arbitrary: ys) (auto split: bind_splits dest: toggle_one_id)

lemma item_ids_toggleDone:
  "toggleDone i s = Some s' \<Longrightarrow> item_ids s' = item_ids s"
  by (auto simp: toggleDone_def item_ids_def split: jsval.splits bind_splits
           dest: map_throw_toggle_ids)

lemma item_ids_removeItem:
  "removeItem i s = Some s' \<Longrightarrow> distinct (item_ids s) \<Longrightarrow> distinct (item_ids s')"
  by (auto simp: removeItem_def item_ids_def distinct_map_filter
           split: jsval.splits bind_splits dest!: filter_throw_Some)

lemma item_ids_clearDoneItems:
  "clearDoneItems s = Some s' \<Longrightarrow> distinct (item_ids s) \<Longrightarrow> distinct (item_ids s')"
  by (auto simp: clearDoneItems_def item_ids_def distinct_map_filter
           split: jsval.splits bind_splits dest!: filter_throw_Some)

lemma item_ids_addItem:
  assumes "addItem uid now nameValue qtyValue catValue noteValue s = Some s'"
  shows "item_ids s' = item_ids s \<or> item_ids s' = JStr uid # item_ids s"
proof (cases "trim nameValue = []")
  case True
  with assms show ?thesis by (simp add: addItem_def)
next
  case False
  from assms False obtain xs where xs: "items s = JArr xs"
    by (cases "items s") (auto simp: addItem_def Let_def)
  from assms False xs obtain r where r: "find_index (is_open_named (trim nameValue)) xs = Some r"
    by (cases "find_index (is_open_named (trim nameValue)) xs") (auto simp: addItem_def Let_def)
  show ?thesis
  proof (cases r)
    case None
    with r assms have "item_ids s' = JStr uid # item_ids s"
      unfolding addItem_create [OF False xs r [unfolded None]]
      using xs by (auto simp: item_ids_def new_item_def prop_of_def)
    then show ?thesis ..
  next
    case (Some i)
    from r Some have some: "find_index (is_open_named (trim nameValue)) xs = Some (Some i)"
      by simp
    from find_index_Some_Some [OF some] have i: "i < length xs" by simp
    have "map (\<lambda>it. prop_of it STR_id) (xs[i := set_prop (xs ! i) STR_qty v])
            = map (\<lambda>it. prop_of it STR_id) xs" for v
      using i by (simp add: map_update prop_of_set_prop_other list_update_same_conv)
    with assms have "item_ids s' = item_ids s"
      unfolding addItem_merge [OF False xs some]
      using xs by (auto simp: item_ids_def split: option.splits)
    then show ?thesis ..
  qed
qed

lemma step_keeps_distinct:
  assumes "distinct (item_ids s)"
    and "case ev of Add uid _ _ _ _ _ \<Rightarrow> JStr uid \<notin> set (item_ids s) | _ \<Rightarrow> True"
  shows "distinct (item_ids (step s ev))"
proof (cases "apply_op ev s")
  case None
  with assms(1) show ?thesis by (simp add: step_def)
next
  case (Some s')
  then have st: "step s ev = s'" by (simp add: step_def)
  show ?thesis
  proof (cases ev)
    case (Add uid now nameValue qtyValue catValue noteValue)
    with Some item_ids_addItem
    have "item_ids s' = item_ids s \<or> item_ids s' = JStr uid # item_ids s" by simp
    with assms Add show ?thesis unfolding st by auto
  next
    case (Toggle i)
    with Some assms(1) show ?thesis unfolding st by (simp add: item_ids_toggleDone)
  next
    case (Remove i)
    with Some assms(1) show ?thesis unfolding st by (simp add: item_ids_removeItem)
  next
    case ClearDone
    with Some assms(1) show ?thesis unfolding st by (simp add: item_ids_clearDoneItems)
  qed
qed

text \<open>
  C2. Start from a state whose item identifiers are pairwise distinct and run any
  sequence of adds, toggles, removals and clearings in which every add is handed an
  identifier that no item has at that moment: after each operation (after every prefix
  of the sequence) the identifiers are pairwise distinct.
\<close>

theorem ids_stay_unique:
  assumes "distinct (item_ids s)" and "fresh_ids s evs"
  shows "\<forall>k\<le>length evs. distinct (item_ids (run s (take k evs)))"
  using assms
proof (induction evs arbitrary: s)
  case Nil
  then show ?case by (simp add: run_def)
next
  case (Cons ev evs)
  from Cons.prems have d: "distinct (item_ids (step s ev))"
    by (intro step_keeps_distinct) auto
  from Cons.prems have f: "fresh_ids (step s ev) evs" by simp
  from Cons.IH [OF d f] have ih: "\<forall>k\<le>length evs. distinct (item_ids (run (step s ev) (take k evs)))" .
  show ?case
  proof (intro allI impI)
    fix k assume k: "k \<le> length (ev # evs)"
    show "distinct (item_ids (run s (take k (ev # evs))))"
    proof (cases k)
      case 0
      with Cons.prems(1) show ?thesis by (simp add: run_def)
    next
      case (Suc k')
      with k ih show ?thesis by (simp add: run_def)
    qed
  qed
qed

theorem ids_stay_unique_witness:
  "distinct (item_ids empty_list) \<and>
   fresh_ids empty_list
     [Add [117, 49] 1000 STR_Milk [50] STR_Dairy [], Add [117, 50] 2000 STR_Bread [49] STR_Bakery [],
      Toggle [117, 49], Add [117, 51] 3000 STR_Milk [49] STR_Dairy [], ClearDone, Remove [117, 50]] \<and>
   distinct (item_ids (run empty_list (take 4
     [Add [117, 49] 1000 STR_Milk [50] STR_Dairy [], Add [117, 50] 2000 STR_Bread [49] STR_Bakery [],
      Toggle [117, 49], Add [117, 51] 3000 STR_Milk [49] STR_Dairy [], ClearDone, Remove [117, 50]]))) \<and>
   item_ids (run empty_list (take 4
     [Add [117, 49] 1000 STR_Milk [50] STR_Dairy [], Add [117, 50] 2000 STR_Bread [49] STR_Bakery [],
      Toggle [117, 49], Add [117, 51] 3000 STR_Milk [49] STR_Dairy [], ClearDone, Remove [117, 50]]))
   = [JStr [117, 51], JStr [117, 50], JStr [117, 49]]"
proof -
  let ?evs = "[Add [117, 49] 1000 STR_Milk [50] STR_Dairy [], Add [117, 50] 2000 STR_Bread [49] STR_Bakery [],
      Toggle [117, 49], Add [117, 51] 3000 STR_Milk [49] STR_Dairy [], ClearDone, Remove [117, 50]]"
  have h1: "distinct (item_ids empty_list)"
    by (simp add: item_ids_def empty_list_def)
  have h2: "fresh_ids empty_list ?evs"
    by (simp add: step_def addItem_eval toggleDone_def toggle_one_def spread_with_def
          clearDoneItems_def item_ids_def prop_of_def)
  have e: "item_ids (run empty_list (take 4 ?evs)) = [JStr [117, 51], JStr [117, 50], JStr [117, 49]]"
    by (simp add: run_def step_def addItem_eval toggleDone_def toggle_one_def spread_with_def
          item_ids_def prop_of_def)
  from ids_stay_unique [OF h1 h2, rule_format, of 4]
  have "distinct (item_ids (run empty_list (take 4 ?evs)))"
    by simp
  with h1 h2 e show ?thesis by simp
qed

section \<open>Import and export\<close>

lemmas JSON_eval =
  JSON_parse_def is_json_ws_def parse_number_def parse_fraction_def parse_exponent_def
  is_digit_def digits_val_def hex_val_def unescape_def Let_def dbl_exact

lemma set_own_same_value: "own_prop ps k = v \<Longrightarrow> v \<noteq> JUndef \<Longrightarrow> set_own ps k v = ps"
  by (induction ps) auto

lemma spread_with_truthy_id:
  "truthy (own_prop ps STR_id) \<Longrightarrow> spread_with (JObj ps) STR_id (own_prop ps STR_id) = JObj ps"
  by (cases "own_prop ps STR_id = JUndef") (auto simp: spread_with_def set_own_same_value)

text \<open>
  The mapping of the import on objects: an item with a truthy \<open>id\<close> is copied as it
  is, and the \<open>k\<close>-th item without one gets the \<open>k\<close>-th identifier of the generator.
\<close>

lemma import_items_objects:
  assumes "\<forall>it\<in>set xs. \<exists>ps. it = JObj ps"
  shows "\<exists>ys. import_items gen n xs = Some ys \<and> length ys = length xs \<and>
           (\<forall>i<length xs.
              ys ! i =
                (if truthy (prop_of (xs ! i) STR_id) then xs ! i
                 else set_prop (xs ! i) STR_id
                        (JStr (gen (n + length (filter (\<lambda>it. \<not> truthy (prop_of it STR_id))
                                                     (take i xs)))))))"
  using assms
proof (induction xs arbitrary: n)
  case Nil
  then show ?case by simp
next
  case (Cons x xs)
  from Cons.prems obtain ps where ps: "x = JObj ps" by auto
  from Cons.prems have objs: "\<forall>it\<in>set xs. \<exists>ps. it = JObj ps" by simp
  let ?lack = "\<lambda>it. \<not> truthy (prop_of it STR_id)"
  show ?case
  proof (cases "truthy (own_prop ps STR_id)")
    case True
    from Cons.IH [OF objs, of n] obtain ys where ys: "import_items gen n xs = Some ys"
      "length ys = length xs"
      "\<forall>i<length xs. ys ! i = (if truthy (prop_of (xs ! i) STR_id) then xs ! i
          else set_prop (xs ! i) STR_id (JStr (gen (n + length (filter ?lack (take i xs))))))"
      by blast
    have "import_items gen n (x # xs) = Some (x # ys)"
      using ps True ys(1) by (simp add: spread_with_truthy_id)
    moreover have "\<forall>i<length (x # xs). (x # ys) ! i =
        (if truthy (prop_of ((x # xs) ! i) STR_id) then (x # xs) ! i
         else set_prop ((x # xs) ! i) STR_id
                (JStr (gen (n + length (filter ?lack (take i (x # xs)))))))"
    proof (intro allI impI)
      fix i assume "i < length (x # xs)"
      then show "(x # ys) ! i =
        (if truthy (prop_of ((x # xs) ! i) STR_id) then (x # xs) ! i
         else set_prop ((x # xs) ! i) STR_id
                (JStr (gen (n + length (filter ?lack (take i (x # xs)))))))"
        using ps True ys(3) by (cases i) (simp_all add: prop_of_JObj)
    qed
    ultimately show ?thesis using ys(2) by simp
  next
    case False
    from Cons.IH [OF objs, of "Suc n"] obtain ys where ys: "import_items gen (Suc n) xs = Some ys"
      "length ys = length xs"
      "\<forall>i<length xs. ys ! i = (if truthy (prop_of (xs ! i) STR_id) then xs ! i
          else set_prop (xs ! i) STR_id (JStr (gen (Suc n + length (filter ?lack (take i xs))))))"
      by blast
    let ?y = "set_prop x STR_id (JStr (gen n))"
    have "import_items gen n (x # xs) = Some (?y # ys)"
      using ps False ys(1) by (simp add: spread_with_def)
    moreover have "\<forall>i<length (x # xs). (?y # ys) ! i =
        (if truthy (prop_of ((x # xs) ! i) STR_id) then (x # xs) ! i
         else set_prop ((x # xs) ! i) STR_id
                (JStr (gen (n + length (filter ?lack (take i (x # xs)))))))"
    proof (intro allI impI)
      fix i assume "i < length (x # xs)"
      then show "(?y # ys) ! i =
        (if truthy (prop_of ((x # xs) ! i) STR_id) then (x # xs) ! i
         else set_prop ((x # xs) ! i) STR_id
                (JStr (gen (n + length (filter ?lack (take i (x # xs)))))))"
        using ps False ys(3) by (cases i) (simp_all add: prop_of_JObj)
    qed
    ultimately show ?thesis using ys(2) by simp
  qed
qed

lemma importJSON_state:
  assumes "parse fileText = Some data" and "get_prop data STR_items = Some (JArr its)"
    and "import_items gen 0 its = Some its'"
  shows "fst (importJSON parse gen filterValue nameValue s fileText) =
           s\<lparr>items := JArr its',
             listName := (if truthy (prop_of data STR_listName) then prop_of data STR_listName
                          else listName s),
             listId := (if truthy (prop_of data STR_listId) then prop_of data STR_listId
                        else listId s)\<rparr>"
  using assms by (simp add: importJSON_def Let_def split: option.splits)

text \<open>
  The two error paths of the import. A file that does not parse gives the load error;
  a file that parses to a value other than \<open>null\<close> (and \<open>undefined\<close>, which \<open>JSON.parse\<close>
  never gives) whose \<open>items\<close> is not an array gives the invalid-file error; in both
  cases the state is unchanged. The state changes only if the file parses and its
  \<open>items\<close> is an array.
\<close>

lemma importJSON_error_paths:
  "(parse fileText = None \<longrightarrow>
      importJSON parse gen filterValue nameValue s fileText = (s, Some LoadError)) \<and>
   (\<forall>data. parse fileText = Some data \<and> readable data \<and>
           (\<nexists>its. prop_of data STR_items = JArr its) \<longrightarrow>
      importJSON parse gen filterValue nameValue s fileText = (s, Some InvalidFile)) \<and>
   (fst (importJSON parse gen filterValue nameValue s fileText) \<noteq> s \<longrightarrow>
      (\<exists>data its. parse fileText = Some data \<and> prop_of data STR_items = JArr its))"
proof (intro conjI allI impI)
  assume "parse fileText = None"
  then show "importJSON parse gen filterValue nameValue s fileText = (s, Some LoadError)"
    by (auto simp: importJSON_def)
next
  fix data
  assume a: "parse fileText = Some data \<and> readable data \<and>
               (\<nexists>its. prop_of data STR_items = JArr its)"
  then have "get_prop data STR_items = Some (prop_of data STR_items)"
    by (simp add: get_prop_readable)
  with a show "importJSON parse gen filterValue nameValue s fileText = (s, Some InvalidFile)"
    by (cases "prop_of data STR_items") (auto simp: importJSON_def)
next
  assume a: "fst (importJSON parse gen filterValue nameValue s fileText) \<noteq> s"
  then obtain data where d: "parse fileText = Some data"
    by (cases "parse fileText") (auto simp: importJSON_def)
  with a obtain v where v: "get_prop data STR_items = Some v"
    by (cases "get_prop data STR_items") (auto simp: importJSON_def)
  with a d obtain its where "v = JArr its"
    by (cases v) (auto simp: importJSON_def)
  with d v show "\<exists>data its. parse fileText = Some data \<and> prop_of data STR_items = JArr its"
    by (auto simp: prop_of_def)
qed

text \<open>
  C4, at the input where the import departs from it. The file \<open>null\<close> is a valid JSON
  document: it parses, to \<open>null\<close>, and its \<open>items\<close> field is not an array, so the
  specification asks for the invalid-file error. Reading \<open>data.items\<close> of \<open>null\<close> throws
  a TypeError before \<open>Array.isArray\<close> is reached, and the \<open>catch\<close> shows the load error
  instead. Every other document without an \<open>items\<close> array takes the \<open>else\<close> branch, as
  the documents \<open>5\<close>, \<open>{"items":"not-an-array"}\<close> and \<open>[]\<close> do here; the load error is
  what a text that does not parse gives, as \<open>{\<close> does. The state is unchanged in all of
  them.
\<close>

theorem importJSON_null_document:
  "JSON_parse DOC_null = Some JNull \<and>
   importJSON JSON_parse (\<lambda>n. []) [] [] empty_list DOC_null = (empty_list, Some LoadError) \<and>
   importJSON JSON_parse (\<lambda>n. []) [] [] empty_list DOC_five = (empty_list, Some InvalidFile) \<and>
   importJSON JSON_parse (\<lambda>n. []) [] [] empty_list DOC_items_not_array
     = (empty_list, Some InvalidFile) \<and>
   importJSON JSON_parse (\<lambda>n. []) [] [] empty_list DOC_empty_array
     = (empty_list, Some InvalidFile) \<and>
   importJSON JSON_parse (\<lambda>n. []) [] [] empty_list DOC_open_brace
     = (empty_list, Some LoadError)"
  by (simp add: importJSON_def JSON_eval)

section \<open>Loading the persisted state\<close>

text \<open>
  C8. \<open>loadState\<close> returns a state for every content of the four slots, a slot whose
  read throws included, and each field of the result depends on its own slot only: two
  storages that agree on a slot give the same value for its field. The items are the
  empty list when the slot is absent, empty, unreadable or does not parse, and the
  parsed value when it parses; the theme is \<open>false\<close> in the first case (\<open>JSON.parse\<close> of
  the text \<open>false\<close> being \<open>false\<close>) and the parsed value in the second; the list name is
  the stored string when there is a non-empty one and the default name otherwise; the
  list id is the stored string when there is a non-empty one and the generated
  identifier otherwise.
\<close>

theorem loadState_slots_independent:
  "(storage KEY_items = storage' KEY_items \<longrightarrow>
      items (loadState parse storage uid) = items (loadState parse storage' uid')) \<and>
   (storage KEY_dark = storage' KEY_dark \<longrightarrow>
      dark (loadState parse storage uid) = dark (loadState parse storage' uid')) \<and>
   (storage KEY_listName = storage' KEY_listName \<longrightarrow>
      listName (loadState parse storage uid) = listName (loadState parse storage' uid')) \<and>
   (storage KEY_listId = storage' KEY_listId \<longrightarrow>
      listId (loadState parse storage uid) = listId (loadState parse storage' uid)) \<and>
   (storage KEY_items \<in> {Throws, Absent, Stored []}
      \<or> (\<exists>raw. storage KEY_items = Stored raw \<and> parse raw = None) \<longrightarrow>
      items (loadState parse storage uid) = JArr []) \<and>
   (\<forall>raw v. storage KEY_items = Stored raw \<and> raw \<noteq> [] \<and> parse raw = Some v \<longrightarrow>
      items (loadState parse storage uid) = v) \<and>
   (parse STR_false = Some (JBool False) \<and>
      (storage KEY_dark \<in> {Throws, Absent, Stored []}
         \<or> (\<exists>raw. storage KEY_dark = Stored raw \<and> parse raw = None)) \<longrightarrow>
      dark (loadState parse storage uid) = JBool False) \<and>
   (\<forall>raw v. storage KEY_dark = Stored raw \<and> raw \<noteq> [] \<and> parse raw = Some v \<longrightarrow>
      dark (loadState parse storage uid) = v) \<and>
   (storage KEY_listName \<in> {Throws, Absent, Stored []} \<longrightarrow>
      listName (loadState parse storage uid) = JStr DEFAULT_listName) \<and>
   (\<forall>name. storage KEY_listName = Stored name \<and> name \<noteq> [] \<longrightarrow>
      listName (loadState parse storage uid) = JStr name) \<and>
   (storage KEY_listId \<in> {Throws, Absent, Stored []} \<longrightarrow>
      listId (loadState parse storage uid) = JStr uid) \<and>
   (\<forall>i. storage KEY_listId = Stored i \<and> i \<noteq> [] \<longrightarrow>
      listId (loadState parse storage uid) = JStr i)"
proof -
  have 1: "storage KEY_items = storage' KEY_items \<longrightarrow>
      items (loadState parse storage uid) = items (loadState parse storage' uid')"
    by (simp add: loadState_def)
  have 2: "storage KEY_dark = storage' KEY_dark \<longrightarrow>
      dark (loadState parse storage uid) = dark (loadState parse storage' uid')"
    by (simp add: loadState_def)
  have 3: "storage KEY_listName = storage' KEY_listName \<longrightarrow>
      listName (loadState parse storage uid) = listName (loadState parse storage' uid')"
    by (simp add: loadState_def)
  have 4: "storage KEY_listId = storage' KEY_listId \<longrightarrow>
      listId (loadState parse storage uid) = listId (loadState parse storage' uid)"
    by (simp add: loadState_def)
  have 5: "storage KEY_items \<in> {Throws, Absent, Stored []}
      \<or> (\<exists>raw. storage KEY_items = Stored raw \<and> parse raw = None) \<longrightarrow>
      items (loadState parse storage uid) = JArr []"
    by (auto simp: loadState_def)
  have 6: "\<forall>raw v. storage KEY_items = Stored raw \<and> raw \<noteq> [] \<and> parse raw = Some v \<longrightarrow>
      items (loadState parse storage uid) = v"
    by (simp add: loadState_def)
  have 7: "parse STR_false = Some (JBool False) \<and>
      (storage KEY_dark \<in> {Throws, Absent, Stored []}
         \<or> (\<exists>raw. storage KEY_dark = Stored raw \<and> parse raw = None)) \<longrightarrow>
      dark (loadState parse storage uid) = JBool False"
    by (auto simp: loadState_def)
  have 8: "\<forall>raw v. storage KEY_dark = Stored raw \<and> raw \<noteq> [] \<and> parse raw = Some v \<longrightarrow>
      dark (loadState parse storage uid) = v"
    by (simp add: loadState_def)
  have 9: "storage KEY_listName \<in> {Throws, Absent, Stored []} \<longrightarrow>
      listName (loadState parse storage uid) = JStr DEFAULT_listName"
    by (auto simp: loadState_def)
  have 10: "\<forall>name. storage KEY_listName = Stored name \<and> name \<noteq> [] \<longrightarrow>
      listName (loadState parse storage uid) = JStr name"
    by (simp add: loadState_def)
  have 11: "storage KEY_listId \<in> {Throws, Absent, Stored []} \<longrightarrow>
      listId (loadState parse storage uid) = JStr uid"
    by (auto simp: loadState_def)
  have 12: "\<forall>i. storage KEY_listId = Stored i \<and> i \<noteq> [] \<longrightarrow>
      listId (loadState parse storage uid) = JStr i"
    by (simp add: loadState_def)
  from 1 2 3 4 5 6 7 8 9 10 11 12 show ?thesis by blast
qed

text \<open>
  A storage whose items slot holds text that does not parse and whose list id cannot be
  read, while the theme and the list name are well formed: the two broken slots take
  their defaults and the other two keep their stored values.
\<close>

theorem loadState_slots_independent_witness:
  "loadState
     (\<lambda>raw. if raw = STR_true then Some (JBool True)
            else if raw = STR_false then Some (JBool False) else None)
     (\<lambda>key. if key = KEY_items then Stored [91, 123]
            else if key = KEY_dark then Stored STR_true
            else if key = KEY_listName then Stored [76]
            else Throws)
     [117, 49]
   = \<lparr>items = JArr [], dark = JBool True, listName = JStr [76], listId = JStr [117, 49]\<rparr>"
proof -
  let ?parse = "\<lambda>raw. if raw = STR_true then Some (JBool True)
            else if raw = STR_false then Some (JBool False) else None"
  let ?storage = "\<lambda>key. if key = KEY_items then Stored [91, 123]
            else if key = KEY_dark then Stored STR_true
            else if key = KEY_listName then Stored [76]
            else Throws"
  let ?st = "loadState ?parse ?storage [117, 49]"
  note t = loadState_slots_independent [where parse = ?parse and storage = ?storage
      and storage' = ?storage and uid = "[117, 49]" and uid' = "[117, 49]"]
  have "items ?st = JArr []" using t by simp
  moreover have "dark ?st = JBool True" using t by simp
  moreover have "listName ?st = JStr [76]" using t by simp
  moreover have "listId ?st = JStr [117, 49]" using t by simp
  ultimately show ?thesis
    by (cases ?st) simp
qed

section \<open>Suggestions\<close>

subsection \<open>Keeping first occurrences\<close>

lemma set_keep_first: "set (keep_first xs) = set xs"
  by (induction xs rule: keep_first.induct) auto

lemma distinct_keep_first: "distinct (keep_first xs)"
  by (induction xs rule: keep_first.induct) (auto simp: set_keep_first)

lemma keep_first_snoc:
  "keep_first (xs @ [y]) = (if y \<in> set xs then keep_first xs else keep_first xs @ [y])"
  by (induction xs rule: keep_first.induct) auto

subsection \<open>Callbacks that do not throw\<close>

lemma map_throw_total:
  "\<forall>x\<in>set xs. f x = Some (g x) \<Longrightarrow> map_throw f xs = Some (map g xs)"
  by (induction xs) auto

lemma filter_throw_total:
  "\<forall>x\<in>set xs. p x = Some (P x) \<Longrightarrow> filter_throw p xs = Some (filter P xs)"
  by (induction xs) auto

subsection \<open>The pool and the substring test\<close>

lemma set_add_primitive:
  "primitive v \<Longrightarrow> set_add acc v = (if v \<in> set acc then acc else acc @ [v])"
  by (auto simp: set_add_def same_value_zero_def)

lemma array_from_set_primitive:
  "\<forall>v\<in>set vs. primitive v \<Longrightarrow> array_from_set vs = keep_first vs"
proof (induction vs rule: rev_induct)
  case Nil
  then show ?case by (simp add: array_from_set_def)
next
  case (snoc v vs)
  then have "array_from_set (vs @ [v]) = set_add (keep_first vs) v"
    by (simp add: array_from_set_def)
  with snoc.prems show ?case
    by (simp add: set_add_primitive keep_first_snoc set_keep_first)
qed

lemma str_includes_iff: "str_includes s q \<longleftrightarrow> (\<exists>a b. s = a @ q @ b)"
proof -
  have "str_includes s q = sublist q s"
    by (induction s) (simp_all add: sublist_Cons_right)
  then show ?thesis by (simp add: sublist_def)
qed

text \<open>
  C7, as stated, fails. The import stores the items of a file as they are, so that the
  file \<open>{"items":[{"name":5}]}\<close> is taken without an alert and leaves an item whose
  name is the number 5. From then on every query that is not empty reaches
  \<open>name.includes(query)\<close> for that pool entry, a number has no such method, and the call
  throws: nothing is returned.
\<close>

theorem updateSuggestions_numeric_name:
  "importJSON JSON_parse (\<lambda>n. [117, 48 + n]) [] [] empty_list DOC_numeric_name
     = (empty_list\<lparr>items := JArr [JObj [(STR_name, JNum (Fin 5)), (STR_id, JStr [117, 48])]]\<rparr>,
        None) \<and>
   updateSuggestions [77]
     (empty_list\<lparr>items := JArr [JObj [(STR_name, JNum (Fin 5)), (STR_id, JStr [117, 48])]]\<rparr>)
     = None"
proof -
  let ?s = "empty_list\<lparr>items := JArr [JObj [(STR_name, JNum (Fin 5)), (STR_id, JStr [117, 48])]]\<rparr>"
  have u: "updateSuggestions [] ?s \<noteq> None"
    by (simp add: updateSuggestions_def trim_def array_from_set_def set_add_def
          same_value_zero_def STARTER_SUGGESTIONS_def text_content_def to_str_def)
  have r: "render [] ?s \<noteq> None"
    by (simp add: render_def empty_list_def js_or_def group_add.simps canonical_groups_def
          other_groups_def CATS_def same_value_zero_def make_card_def text_content_def
          to_str_def)
  have quiet: "\<not> refresh_throws [] [] ?s"
    using u r by (simp add: refresh_throws_def to_str_def empty_list_def)
  have "JSON_parse DOC_numeric_name = Some (JObj [(STR_items, JArr [JObj [(STR_name, JNum (Fin 5))]])])"
    by (simp add: JSON_eval)
  with quiet have "importJSON JSON_parse (\<lambda>n. [117, 48 + n]) [] [] empty_list DOC_numeric_name
     = (?s, None)"
    by (simp add: importJSON_def spread_with_def prop_of_def Let_def empty_list_def)
  moreover have "updateSuggestions [77] ?s = None"
    by (simp add: updateSuggestions_def trim_def is_ws_def array_from_set_def set_add_def
          same_value_zero_def STARTER_SUGGESTIONS_def)
  ultimately show ?thesis by simp
qed

text \<open>
  C7, amended. On a list whose items have strings as names, the suggestions for any
  text of the name field are at most 12 and pairwise distinct. The pool is the starter
  vocabulary followed by the names of the items, with the first occurrence of each name
  kept. A query that is empty after trimming gives the first 12 entries of the pool;
  any other gives, in pool order, the first 12 of exactly those entries that contain
  the trimmed query as a contiguous substring.
\<close>

theorem updateSuggestions_pool:
  assumes "items s = JArr xs" and "\<forall>it\<in>set xs. \<exists>n. prop_of it STR_name = JStr n"
  shows "\<exists>rs pool. updateSuggestions nameValue s = Some rs \<and>
           length rs \<le> 12 \<and> distinct rs \<and>
           pool = keep_first (map JStr STARTER_SUGGESTIONS @ map (\<lambda>it. prop_of it STR_name) xs) \<and>
           (trim nameValue = [] \<longrightarrow> rs = take 12 pool) \<and>
           (trim nameValue \<noteq> [] \<longrightarrow>
              rs = take 12 (filter (\<lambda>v. \<exists>a b. v = JStr (a @ trim nameValue @ b)) pool))"
proof -
  let ?q = "trim nameValue"
  let ?names = "map (\<lambda>it. prop_of it STR_name) xs"
  let ?all = "map JStr STARTER_SUGGESTIONS @ ?names"
  let ?pool = "keep_first ?all"
  let ?P = "\<lambda>v. \<exists>a b. v = JStr (a @ ?q @ b)"
  have "\<forall>it\<in>set xs. get_prop it STR_name = Some (prop_of it STR_name)"
  proof
    fix it assume "it \<in> set xs"
    with assms(2) obtain n where "prop_of it STR_name = JStr n" by blast
    then show "get_prop it STR_name = Some (prop_of it STR_name)"
      by (cases it) (simp_all add: prop_of_def)
  qed
  then have names: "map_throw (\<lambda>i. get_prop i STR_name) xs = Some ?names"
    by (rule map_throw_total)
  have strs: "\<forall>v\<in>set ?all. \<exists>n. v = JStr n"
    using assms(2) by auto
  have "\<forall>v\<in>set ?all. primitive v"
  proof
    fix v assume "v \<in> set ?all"
    with strs obtain n where "v = JStr n" by blast
    then show "primitive v" by simp
  qed
  then have pool: "array_from_set ?all = ?pool"
    by (rule array_from_set_primitive)
  have "\<forall>v\<in>set ?pool. js_includes v ?q = Some (?P v)"
  proof
    fix v assume "v \<in> set ?pool"
    with strs obtain n where "v = JStr n" by (auto simp: set_keep_first)
    then show "js_includes v ?q = Some (?P v)" by (simp add: str_includes_iff)
  qed
  then have hits: "filter_throw (\<lambda>name. js_includes name ?q) ?pool = Some (filter ?P ?pool)"
    by (rule filter_throw_total)
  let ?rs = "if ?q = [] then take 12 ?pool else take 12 (filter ?P ?pool)"
  have "\<forall>v\<in>set ?rs. text_content v = Some (str_of v)"
  proof
    fix v assume "v \<in> set ?rs"
    then have "v \<in> set ?pool"
      by (auto split: if_splits dest: in_set_takeD)
    with strs obtain n where "v = JStr n" by (auto simp: set_keep_first)
    then show "text_content v = Some (str_of v)" by (simp add: text_content_def to_str_def)
  qed
  then have labels: "map_throw text_content ?rs = Some (map str_of ?rs)"
    by (rule map_throw_total)
  have "updateSuggestions nameValue s = Some ?rs"
  proof (cases "?q = []")
    case True
    with labels have "map_throw text_content (take 12 ?pool) = Some (map str_of (take 12 ?pool))"
      by simp
    with True assms(1) names pool show ?thesis
      by (simp add: updateSuggestions_def Let_def)
  next
    case False
    with labels have "map_throw text_content (take 12 (filter ?P ?pool))
                        = Some (map str_of (take 12 (filter ?P ?pool)))"
      by simp
    with False assms(1) names pool hits show ?thesis
      by (simp add: updateSuggestions_def Let_def)
  qed
  moreover have "length ?rs \<le> 12" by simp
  moreover have "distinct ?rs" by (simp add: distinct_keep_first)
  ultimately show ?thesis
    by (intro exI [of _ ?rs] exI [of _ ?pool]) simp
qed

theorem updateSuggestions_pool_witness:
  "updateSuggestions [32, 77, 105]
     (empty_list\<lparr>items := JArr
        [JObj [(STR_id, JStr [97]), (STR_name, JStr STR_Milk)],
         JObj [(STR_id, JStr [98]), (STR_name, JStr [1495, 1500, 1489])],
         JObj [(STR_id, JStr [99]), (STR_name, JStr STR_Milk), (STR_done, JBool True)]]\<rparr>)
   = Some [JStr STR_Milk]
   \<and> (\<exists>rs. updateSuggestions [32]
     (empty_list\<lparr>items := JArr
        [JObj [(STR_id, JStr [97]), (STR_name, JStr STR_Milk)],
         JObj [(STR_id, JStr [98]), (STR_name, JStr [1495, 1500, 1489])],
         JObj [(STR_id, JStr [99]), (STR_name, JStr STR_Milk), (STR_done, JBool True)]]\<rparr>)
       = Some rs \<and> length rs \<le> 12 \<and> distinct rs)"
proof -
  let ?xs = "[JObj [(STR_id, JStr [97]), (STR_name, JStr STR_Milk)],
         JObj [(STR_id, JStr [98]), (STR_name, JStr [1495, 1500, 1489])],
         JObj [(STR_id, JStr [99]), (STR_name, JStr STR_Milk), (STR_done, JBool True)]]"
  let ?s = "empty_list\<lparr>items := JArr ?xs\<rparr>"
  have h1: "items ?s = JArr ?xs"
    by simp
  have h2: "\<forall>it\<in>set ?xs. \<exists>n. prop_of it STR_name = JStr n"
    by (simp add: prop_of_def)
  have e: "updateSuggestions [32, 77, 105] ?s = Some [JStr STR_Milk]"
    by (simp add: updateSuggestions_def trim_def is_ws_def array_from_set_def set_add_def
          same_value_zero_def STARTER_SUGGESTIONS_def text_content_def to_str_def)
  from updateSuggestions_pool [OF h1 h2, of "[32]"]
  have "\<exists>rs. updateSuggestions [32] ?s = Some rs \<and> length rs \<le> 12 \<and> distinct rs"
    by blast
  with e show ?thesis by simp
qed

section \<open>Rendering\<close>

subsection \<open>The map of groups\<close>

text \<open>
  After any number of items the map holds one entry per category, in the order in which
  the categories were first met, each with the items of its category in order: adding
  an item with a primitive key extends the entry of that key, or appends a new entry.
\<close>

lemma group_add_primitive:
  assumes "primitive k" and "distinct (map fst gs)"
  shows "group_add k it gs =
           (if k \<in> fst ` set gs
            then map (\<lambda>(k', g). (k', if k' = k then g @ [it] else g)) gs
            else gs @ [(k, [it])])"
  using assms(2)
proof (induction gs)
  case Nil
  then show ?case by simp
next
  case (Cons p gs)
  obtain k' g where p: "p = (k', g)" by (cases p)
  show ?case
  proof (cases "k' = k")
    case True
    with Cons.prems p have "k \<notin> fst ` set gs" by auto
    then have "map (\<lambda>(k', g). (k', if k' = k then g @ [it] else g)) gs = gs"
      by (induction gs) auto
    with True p assms(1) show ?thesis
      by (simp add: same_value_zero_def)
  next
    case False
    with Cons p show ?thesis
      by (auto simp: same_value_zero_def)
  qed
qed

lemma category_key_primitive:
  "primitive (prop_of it STR_category) \<Longrightarrow> primitive (category_key it)"
  by (simp add: category_key_def js_or_def)

lemma in_category_snoc:
  "in_category k (ys @ [it]) = in_category k ys @ (if category_key it = k then [it] else [])"
  by (simp add: in_category_def)

lemma group_add_grouped:
  assumes "primitive (category_key it)"
  shows "group_add (category_key it) it
           (map (\<lambda>k. (k, in_category k ys)) (keep_first (map category_key ys)))
         = map (\<lambda>k. (k, in_category k (ys @ [it]))) (keep_first (map category_key (ys @ [it])))"
proof -
  let ?k = "category_key it"
  let ?ks = "keep_first (map category_key ys)"
  let ?gs = "map (\<lambda>k. (k, in_category k ys)) ?ks"
  have d: "distinct (map fst ?gs)"
    by (simp add: o_def distinct_keep_first)
  have keys: "fst ` set ?gs = category_key ` set ys"
    by (force simp: set_keep_first)
  show ?thesis
  proof (cases "?k \<in> category_key ` set ys")
    case True
    then have "keep_first (map category_key (ys @ [it])) = ?ks"
      by (simp add: keep_first_snoc)
    moreover have "group_add ?k it ?gs = map (\<lambda>k. (k, in_category k (ys @ [it]))) ?ks"
      unfolding group_add_primitive [OF assms d] keys
      using True by (auto simp: in_category_snoc)
    ultimately show ?thesis by simp
  next
    case False
    then have ks: "keep_first (map category_key (ys @ [it])) = ?ks @ [?k]"
      by (simp add: keep_first_snoc)
    from False have new: "in_category ?k ys = []"
      by (force simp: in_category_def filter_empty_conv image_iff)
    from False have old: "\<forall>k\<in>set ?ks. in_category k (ys @ [it]) = in_category k ys"
      by (force simp: set_keep_first in_category_snoc image_iff)
    have "group_add ?k it ?gs = ?gs @ [(?k, [it])]"
      unfolding group_add_primitive [OF assms d] keys
      using False by simp
    also have "\<dots> = map (\<lambda>k. (k, in_category k (ys @ [it]))) (?ks @ [?k])"
      using old new by (simp add: in_category_snoc)
    finally show ?thesis by (simp only: ks)
  qed
qed

lemma group_items_grouped:
  assumes "\<forall>it\<in>set its. readable it \<and> primitive (prop_of it STR_category)"
  shows "group_items its (map (\<lambda>k. (k, in_category k ys)) (keep_first (map category_key ys)))
         = Some (map (\<lambda>k. (k, in_category k (ys @ its)))
                   (keep_first (map category_key (ys @ its))))"
  using assms
proof (induction its arbitrary: ys)
  case Nil
  then show ?case by simp
next
  case (Cons it its)
  from Cons.prems have r: "get_prop it STR_category = Some (prop_of it STR_category)"
    and p: "primitive (category_key it)"
    by (simp_all add: get_prop_readable category_key_primitive)
  from Cons.prems have rest: "\<forall>it\<in>set its. readable it \<and> primitive (prop_of it STR_category)"
    by simp
  have "group_items (it # its)
          (map (\<lambda>k. (k, in_category k ys)) (keep_first (map category_key ys)))
        = group_items its
            (map (\<lambda>k. (k, in_category k (ys @ [it])))
               (keep_first (map category_key (ys @ [it]))))"
    using r group_add_grouped [OF p, of ys]
    by (simp add: category_key_def)
  also have "\<dots> = Some (map (\<lambda>k. (k, in_category k ((ys @ [it]) @ its)))
                   (keep_first (map category_key ((ys @ [it]) @ its))))"
    by (rule Cons.IH [OF rest])
  finally show ?case by simp
qed

subsection \<open>The two loops over the groups\<close>

lemma map_get_grouped:
  "map_get (map (\<lambda>k. (k, F k)) ks) (JStr c)
     = (if JStr c \<in> set ks then Some (F (JStr c)) else None)"
  by (induction ks) (auto simp: same_value_zero_def)

lemma concat_map_singleton_if:
  "concat (map (\<lambda>x. if P x then [f x] else []) xs) = map f (filter P xs)"
  by (induction xs) auto

lemma canonical_groups_grouped:
  "canonical_groups (map (\<lambda>k. (k, in_category k sel)) (keep_first (map category_key sel)))
     = map (\<lambda>c. (c, in_category (JStr c) sel))
         (filter (\<lambda>c. JStr c \<in> category_key ` set sel) CATS)"
proof -
  have "(case map_get (map (\<lambda>k. (k, in_category k sel)) (keep_first (map category_key sel)))
               (JStr c) of
           None \<Rightarrow> []
         | Some g \<Rightarrow> if g \<noteq> [] then [(c, g)] else [])
        = (if JStr c \<in> category_key ` set sel then [(c, in_category (JStr c) sel)] else [])"
    for c
    by (auto simp: map_get_grouped set_keep_first in_category_def filter_empty_conv)
  then show ?thesis
    by (simp add: canonical_groups_def concat_map_singleton_if)
qed

lemma other_groups_grouped:
  "other_groups (map (\<lambda>k. (k, in_category k sel)) (keep_first (map category_key sel)))
     = map (\<lambda>k. (k, in_category k sel))
         (filter (\<lambda>k. k \<notin> JStr ` set CATS) (keep_first (map category_key sel)))"
  by (simp add: other_groups_def filter_map o_def)

lemma selected_filter_throw:
  assumes "\<forall>it\<in>set xs. readable it"
  shows "(if filterValue = STR_todo
          then filter_throw (\<lambda>it. do { d \<leftarrow> get_prop it STR_done; Some (\<not> truthy d) }) xs
          else if filterValue = STR_done
          then filter_throw (\<lambda>it. do { d \<leftarrow> get_prop it STR_done; Some (truthy d) }) xs
          else Some xs) = Some (selected filterValue xs)"
proof -
  have "filter_throw (\<lambda>it. do { d \<leftarrow> get_prop it STR_done; Some (\<not> truthy d) }) xs
          = Some (filter (\<lambda>it. \<not> truthy (prop_of it STR_done)) xs)"
    using assms by (intro filter_throw_total) (simp add: get_prop_readable)
  moreover have "filter_throw (\<lambda>it. do { d \<leftarrow> get_prop it STR_done; Some (truthy d) }) xs
          = Some (filter (\<lambda>it. truthy (prop_of it STR_done)) xs)"
    using assms by (intro filter_throw_total) (simp add: get_prop_readable)
  ultimately show ?thesis
    by (simp add: selected_def)
qed

subsection \<open>The cards\<close>

lemma primitive_not_str_throws: "primitive v \<Longrightarrow> \<not> str_throws v"
  by (cases v) simp_all

lemma text_content_text_of: "\<not> str_throws v \<Longrightarrow> text_content v = Some (text_of v)"
  by (simp add: text_content_def text_of_def to_str_def)

lemma make_card_showable:
  assumes "showable it"
  shows "make_card it = Some (card_of it)"
proof -
  from assms have r: "get_prop it k = Some (prop_of it k)" for k
    by (simp add: showable_def get_prop_readable)
  from assms have n: "text_content (prop_of it STR_name) = Some (text_of (prop_of it STR_name))"
    by (simp add: showable_def text_content_text_of)
  from assms have "\<not> str_throws (shown_qty it)"
    by (simp add: showable_def shown_qty_def js_or_def)
  then have q: "to_str (js_or (prop_of it STR_qty) (JNum (Fin 1))) = Some (str_of (shown_qty it))"
    by (simp add: to_str_def shown_qty_def)
  from assms have t: "to_str (prop_of it STR_note) = Some (str_of (prop_of it STR_note))"
    by (simp add: showable_def to_str_def)
  from assms have "primitive (category_key it)"
    by (simp add: showable_def category_key_primitive)
  then have c: "text_content (js_or (prop_of it STR_category) (JStr CAT_other))
                  = Some (text_of (category_key it))"
    by (simp add: primitive_not_str_throws text_content_text_of category_key_def)
  show ?thesis
    by (simp add: make_card_def r n q t c card_of_def)
qed

lemma in_category_subset: "set (in_category k sel) \<subseteq> set sel"
  by (auto simp: in_category_def)

text \<open>
  C6, as stated, fails in two ways on lists that an import leaves behind. Two items
  whose category is the array \<open>["a"]\<close> have the same category, yet the \<open>Map\<close> compares
  its keys by identity and each of them gets a group of its own, under the same header.
  And an item whose quantity is an object with a property named \<open>toString\<close> makes the
  template of the quantity line throw: nothing is returned, neither the groups nor the
  empty message.
\<close>

theorem render_not_grouped:
  "render []
     (empty_list\<lparr>items := JArr
        [JObj [(STR_name, JStr [120]), (STR_category, JArr [JStr [97]])],
         JObj [(STR_name, JStr [121]), (STR_category, JArr [JStr [97]])]]\<rparr>)
   = Some \<lparr>groups =
       [([97], [card_of (JObj [(STR_name, JStr [120]), (STR_category, JArr [JStr [97]])])]),
        ([97], [card_of (JObj [(STR_name, JStr [121]), (STR_category, JArr [JStr [97]])])])],
      emptyShown = False\<rparr>
   \<and>
   render []
     (empty_list\<lparr>items := JArr
        [JObj [(STR_name, JStr STR_Milk), (STR_qty, JObj [(STR_toString, JNum (Fin 1))])]]\<rparr>)
   = None"
  by (simp add: render_def empty_list_def js_or_def canonical_groups_def other_groups_def
        CATS_def same_value_zero_def make_card_def text_content_def to_str_def card_of_def
        text_of_def prop_of_def shown_qty_def category_key_def)

text \<open>
  C6, amended. On a list of items that can be shown (each can be read, its category is
  a primitive value, and its name, quantity and note can be converted to strings),
  \<open>render\<close> shows, for the subset that the filter selects: first one group for each
  canonical category that occurs in the subset, in the order of \<open>CATS\<close>; then one group
  for each other category, in the order in which these categories are first met in the
  subset; each group has the text of its category as header and holds the cards of the
  items of its category in the order of the subset. The empty message is shown exactly
  when the subset is empty.
\<close>

theorem render_groups:
  assumes "items s = JArr xs" and "\<forall>it\<in>set xs. showable it"
  shows "render filterValue s =
           Some \<lparr>groups =
                    map (\<lambda>c. (c, map card_of (in_category (JStr c) (selected filterValue xs))))
                      (filter (\<lambda>c. JStr c \<in> category_key ` set (selected filterValue xs)) CATS)
                    @ map (\<lambda>k. (text_of k, map card_of (in_category k (selected filterValue xs))))
                        (filter (\<lambda>k. k \<notin> JStr ` set CATS)
                           (keep_first (map category_key (selected filterValue xs)))),
                  emptyShown = (selected filterValue xs = [])\<rparr>"
proof -
  let ?sel = "selected filterValue xs"
  let ?keys = "keep_first (map category_key ?sel)"
  let ?gs = "map (\<lambda>k. (k, in_category k ?sel)) ?keys"
  let ?cats = "filter (\<lambda>c. JStr c \<in> category_key ` set ?sel) CATS"
  let ?others = "filter (\<lambda>k. k \<notin> JStr ` set CATS) ?keys"
  let ?canon = "map (\<lambda>c. (c, map card_of (in_category (JStr c) ?sel))) ?cats"
  let ?other = "map (\<lambda>k. (text_of k, map card_of (in_category k ?sel))) ?others"
  have sub: "set ?sel \<subseteq> set xs"
    by (auto simp: selected_def)
  from assms(2) have r: "\<forall>it\<in>set xs. readable it"
    by (simp add: showable_def)
  from assms(2) sub have sh: "\<forall>it\<in>set ?sel. showable it"
    by blast
  then have "\<forall>it\<in>set ?sel. readable it \<and> primitive (prop_of it STR_category)"
    by (simp add: showable_def)
  from group_items_grouped [OF this, of "[]"]
  have gs: "group_items ?sel [] = Some ?gs" by simp
  have cards: "map_throw make_card (in_category k ?sel) = Some (map card_of (in_category k ?sel))"
    for k
    using sh in_category_subset [of k ?sel]
    by (intro map_throw_total) (auto simp: make_card_showable)
  have first: "map_throw (\<lambda>(cat, g). do { cards \<leftarrow> map_throw make_card g; Some (cat, cards) })
                 (map (\<lambda>c. (c, in_category (JStr c) ?sel)) ?cats) = Some ?canon"
  proof -
    have "map_throw (\<lambda>(cat, g). do { cards \<leftarrow> map_throw make_card g; Some (cat, cards) })
            (map (\<lambda>c. (c, in_category (JStr c) ?sel)) ?cats)
          = Some (map (\<lambda>(cat, g). (cat, map card_of g))
                    (map (\<lambda>c. (c, in_category (JStr c) ?sel)) ?cats))"
      by (intro map_throw_total) (auto simp: cards)
    then show ?thesis by (simp add: o_def)
  qed
  have keys: "\<forall>k\<in>set ?others. text_content k = Some (text_of k)"
  proof
    fix k assume "k \<in> set ?others"
    then obtain it where "it \<in> set ?sel" "k = category_key it"
      by (auto simp: set_keep_first)
    with sh have "primitive k"
      by (simp add: showable_def category_key_primitive)
    then show "text_content k = Some (text_of k)"
      by (simp add: primitive_not_str_throws text_content_text_of)
  qed
  have second: "map_throw (\<lambda>(cat, g). do { header \<leftarrow> text_content cat;
                                             cards \<leftarrow> map_throw make_card g;
                                             Some (header, cards) })
                  (map (\<lambda>k. (k, in_category k ?sel)) ?others) = Some ?other"
  proof -
    have "map_throw (\<lambda>(cat, g). do { header \<leftarrow> text_content cat;
                                     cards \<leftarrow> map_throw make_card g;
                                     Some (header, cards) })
            (map (\<lambda>k. (k, in_category k ?sel)) ?others)
          = Some (map (\<lambda>(cat, g). (text_of cat, map card_of g))
                    (map (\<lambda>k. (k, in_category k ?sel)) ?others))"
      using keys by (intro map_throw_total) (auto simp: cards)
    then show ?thesis by (simp add: o_def)
  qed
  have empty: "(?canon @ ?other = []) = (?sel = [])"
  proof
    assume e: "?canon @ ?other = []"
    show "?sel = []"
    proof (rule ccontr)
      assume "?sel \<noteq> []"
      then obtain it where it: "it \<in> set ?sel" by (cases ?sel) auto
      show False
      proof (cases "category_key it \<in> JStr ` set CATS")
        case True
        then obtain c where "c \<in> set CATS" "category_key it = JStr c" by auto
        with it have "c \<in> set ?cats"
          by force
        with e show False by auto
      next
        case False
        with it have "category_key it \<in> set ?others"
          by (simp add: set_keep_first)
        with e show False by auto
      qed
    qed
  next
    assume "?sel = []"
    then show "?canon @ ?other = []" by simp
  qed
  show ?thesis
    using assms(1) gs first second empty
    by (simp add: render_def selected_filter_throw [OF r] Let_def
          canonical_groups_grouped other_groups_grouped)
qed

theorem render_groups_witness:
  "render STR_done
     (empty_list\<lparr>items := JArr
        [JObj [(STR_name, JStr [97]), (STR_category, JStr [1495, 1500, 1489]), (STR_done, JBool True)],
         JObj [(STR_name, JStr [98]), (STR_category, JStr STR_Dairy), (STR_done, JBool True)],
         JObj [(STR_name, JStr [99]), (STR_category, JStr STR_Produce), (STR_done, JBool False)],
         JObj [(STR_name, JStr [100]), (STR_done, JBool True)],
         JObj [(STR_name, JStr [101]), (STR_category, JStr [1497, 1512, 1511, 1493, 1514]),
               (STR_done, JBool True)],
         JObj [(STR_name, JStr [102]), (STR_category, JStr STR_Dairy), (STR_done, JBool True)]]\<rparr>)
   = Some \<lparr>groups =
       [([1497, 1512, 1511, 1493, 1514],
           [card_of (JObj [(STR_name, JStr [101]),
                           (STR_category, JStr [1497, 1512, 1511, 1493, 1514]),
                           (STR_done, JBool True)])]),
        ([1495, 1500, 1489],
           [card_of (JObj [(STR_name, JStr [97]), (STR_category, JStr [1495, 1500, 1489]),
                           (STR_done, JBool True)])]),
        (CAT_other, [card_of (JObj [(STR_name, JStr [100]), (STR_done, JBool True)])]),
        (STR_Dairy,
           [card_of (JObj [(STR_name, JStr [98]), (STR_category, JStr STR_Dairy),
                           (STR_done, JBool True)]),
            card_of (JObj [(STR_name, JStr [102]), (STR_category, JStr STR_Dairy),
                           (STR_done, JBool True)])])],
      emptyShown = False\<rparr>
   \<and>
   render STR_done
     (empty_list\<lparr>items := JArr
        [JObj [(STR_done, JBool True), (STR_category, JStr STR_Dairy), (STR_qty, JNum (Fin 2)),
               (STR_note, JStr [120])],
         JObj [(STR_done, JBool False), (STR_category, JStr STR_Produce)]]\<rparr>)
   = Some \<lparr>groups =
       [(STR_Dairy,
          [\<lparr>cardItem = JObj [(STR_done, JBool True), (STR_category, JStr STR_Dairy),
                             (STR_qty, JNum (Fin 2)), (STR_note, JStr [120])],
            checked = True, nameText = [],
            subText = STR_qty_label @ [50] @ STR_note_sep @ [120],
            catText = STR_Dairy\<rparr>])],
      emptyShown = False\<rparr>
   \<and>
   render STR_todo
     (empty_list\<lparr>items := JArr [JObj [(STR_done, JBool True), (STR_category, JStr STR_Dairy)]]\<rparr>)
   = Some \<lparr>groups = [], emptyShown = True\<rparr>"
proof -
  let ?xs = "[JObj [(STR_name, JStr [97]), (STR_category, JStr [1495, 1500, 1489]), (STR_done, JBool True)],
         JObj [(STR_name, JStr [98]), (STR_category, JStr STR_Dairy), (STR_done, JBool True)],
         JObj [(STR_name, JStr [99]), (STR_category, JStr STR_Produce), (STR_done, JBool False)],
         JObj [(STR_name, JStr [100]), (STR_done, JBool True)],
         JObj [(STR_name, JStr [101]), (STR_category, JStr [1497, 1512, 1511, 1493, 1514]),
               (STR_done, JBool True)],
         JObj [(STR_name, JStr [102]), (STR_category, JStr STR_Dairy), (STR_done, JBool True)]]"
  let ?ys = "[JObj [(STR_done, JBool True), (STR_category, JStr STR_Dairy), (STR_qty, JNum (Fin 2)),
               (STR_note, JStr [120])],
         JObj [(STR_done, JBool False), (STR_category, JStr STR_Produce)]]"
  let ?zs = "[JObj [(STR_done, JBool True), (STR_category, JStr STR_Dairy)]]"
  have x1: "items (empty_list\<lparr>items := JArr ?xs\<rparr>) = JArr ?xs"
    and y1: "items (empty_list\<lparr>items := JArr ?ys\<rparr>) = JArr ?ys"
    and z1: "items (empty_list\<lparr>items := JArr ?zs\<rparr>) = JArr ?zs"
    by simp_all
  have x2: "\<forall>it\<in>set ?xs. showable it"
    and y2: "\<forall>it\<in>set ?ys. showable it"
    and z2: "\<forall>it\<in>set ?zs. showable it"
    by (simp_all add: showable_def readable_def prop_of_def)
  have two: "num_to_str (Fin 2) = [50]"
    by (simp add: num_to_str_def nat_to_str_def dec_digits.simps)
  have "render STR_done (empty_list\<lparr>items := JArr ?xs\<rparr>) =
          Some \<lparr>groups =
       [([1497, 1512, 1511, 1493, 1514],
           [card_of (JObj [(STR_name, JStr [101]),
                           (STR_category, JStr [1497, 1512, 1511, 1493, 1514]),
                           (STR_done, JBool True)])]),
        ([1495, 1500, 1489],
           [card_of (JObj [(STR_name, JStr [97]), (STR_category, JStr [1495, 1500, 1489]),
                           (STR_done, JBool True)])]),
        (CAT_other, [card_of (JObj [(STR_name, JStr [100]), (STR_done, JBool True)])]),
        (STR_Dairy,
           [card_of (JObj [(STR_name, JStr [98]), (STR_category, JStr STR_Dairy),
                           (STR_done, JBool True)]),
            card_of (JObj [(STR_name, JStr [102]), (STR_category, JStr STR_Dairy),
                           (STR_done, JBool True)])])],
      emptyShown = False\<rparr>"
    unfolding render_groups [OF x1 x2]
    by (simp add: selected_def in_category_def category_key_def js_or_def prop_of_def CATS_def
          text_of_def)
  moreover have "render STR_done (empty_list\<lparr>items := JArr ?ys\<rparr>) =
      Some \<lparr>groups =
       [(STR_Dairy,
          [\<lparr>cardItem = JObj [(STR_done, JBool True), (STR_category, JStr STR_Dairy),
                             (STR_qty, JNum (Fin 2)), (STR_note, JStr [120])],
            checked = True, nameText = [],
            subText = STR_qty_label @ [50] @ STR_note_sep @ [120],
            catText = STR_Dairy\<rparr>])],
      emptyShown = False\<rparr>"
    unfolding render_groups [OF y1 y2]
    by (simp add: selected_def in_category_def category_key_def js_or_def prop_of_def CATS_def
          text_of_def card_of_def shown_qty_def two)
  moreover have "render STR_todo (empty_list\<lparr>items := JArr ?zs\<rparr>)
                   = Some \<lparr>groups = [], emptyShown = True\<rparr>"
    unfolding render_groups [OF z1 z2]
    by (simp add: selected_def prop_of_def)
  ultimately show ?thesis by simp
qed

end
